theory Spec2Isabelle
  imports Main "HOL-Library.Word" "HOL-Library.Sublist"
begin

unbundle bit_operations_syntax

section \<open>Errors\<close>

text \<open>
  Go errors are values built by \<^verbatim>\<open>fmt.Errorf\<close>. The model keeps the format string of
  every error the source builds and the arguments the claims depend on:
  \<^item> \<open>Errorf msg\<close>: \<^verbatim>\<open>fmt.Errorf(msg)\<close>, possibly with the input echoed by \<^verbatim>\<open>%s\<close>/\<^verbatim>\<open>%q\<close>
    (the echoed text is not kept);
  \<^item> \<open>Errorf_d msg n\<close>: a message ending in a \<^verbatim>\<open>%d\<close> status code;
  \<^item> \<open>Errorf_w msg e\<close>: \<^verbatim>\<open>fmt.Errorf(msg + ": %w", e)\<close>, the wrapped error kept;
  \<^item> \<open>External msg\<close>: an error value handed back by a collaborator (the remote client,
    the resource store, the UUID library);
  \<^item> \<open>Panic msg\<close>: a run-time panic (nil pointer dereference).
\<close>

datatype error =
    Errorf string
  | Errorf_d string int
  | Errorf_w string error
  | External string
  | Panic string

section \<open>UUIDs (github.com/google/uuid)\<close>

text \<open>
  \<^verbatim>\<open>uuid.UUID\<close> is \<^verbatim>\<open>[16]byte\<close>: a datatype of sixteen bytes, so that every value of
  the type is a UUID, as in Go.
\<close>

type_synonym byte = "8 word"

datatype UUID = UUID byte byte byte byte byte byte byte byte
                     byte byte byte byte byte byte byte byte

text \<open>The lower-case hexadecimal digit of a nibble (\<^verbatim>\<open>encoding/hex\<close>).\<close>

definition hextable :: string where
  "hextable = ''0123456789abcdef''"

definition hexdigit :: "byte \<Rightarrow> char" where
  "hexdigit n = hextable ! unat (n AND 15)"

definition hexbyte :: "byte \<Rightarrow> string" where
  "hexbyte b = [hexdigit (drop_bit 4 b), hexdigit b]"

text \<open>
  \<^verbatim>\<open>UUID.String\<close>: the canonical form
  \<^verbatim>\<open>xxxxxxxx-xxxx-xxxx-xxxx-xxxxxxxxxxxx\<close> in lower case.
\<close>

fun uuid_String :: "UUID \<Rightarrow> string" where
  "uuid_String (UUID b0 b1 b2 b3 b4 b5 b6 b7 b8 b9 b10 b11 b12 b13 b14 b15) =
     hexbyte b0 @ hexbyte b1 @ hexbyte b2 @ hexbyte b3 @ ''-'' @
     hexbyte b4 @ hexbyte b5 @ ''-'' @
     hexbyte b6 @ hexbyte b7 @ ''-'' @
     hexbyte b8 @ hexbyte b9 @ ''-'' @
     hexbyte b10 @ hexbyte b11 @ hexbyte b12 @ hexbyte b13 @ hexbyte b14 @ hexbyte b15"

text \<open>
  \<^verbatim>\<open>xvalues\<close>: the value of a hexadecimal digit in either case, 255 for any other
  byte; \<^verbatim>\<open>xtob\<close> joins two digits into a byte and reports whether both were digits.
\<close>

definition xvalue :: "char \<Rightarrow> byte" where
  "xvalue c =
     (let n = of_char c :: nat in
      if 48 \<le> n \<and> n \<le> 57 then of_nat (n - 48)
      else if 65 \<le> n \<and> n \<le> 70 then of_nat (n - 55)
      else if 97 \<le> n \<and> n \<le> 102 then of_nat (n - 87)
      else 255)"

definition xtob :: "char \<Rightarrow> char \<Rightarrow> byte option" where
  "xtob x1 x2 =
     (let b1 = xvalue x1; b2 = xvalue x2 in
      if b1 \<noteq> 255 \<and> b2 \<noteq> 255 then Some (push_bit 4 b1 OR b2) else None)"

text \<open>The bytes at the given digit positions of \<open>s\<close>; None as soon as one pair is not hex.\<close>

fun xtobs :: "string \<Rightarrow> nat list \<Rightarrow> byte list option" where
  "xtobs s [] = Some []"
| "xtobs s (x # xs) =
     (case xtob (s ! x) (s ! Suc x) of
        None \<Rightarrow> None
      | Some v \<Rightarrow> (case xtobs s xs of None \<Rightarrow> None | Some vs \<Rightarrow> Some (v # vs)))"

fun uuid_of_bytes :: "byte list \<Rightarrow> UUID option" where
  "uuid_of_bytes [b0, b1, b2, b3, b4, b5, b6, b7, b8, b9, b10, b11, b12, b13, b14, b15] =
     Some (UUID b0 b1 b2 b3 b4 b5 b6 b7 b8 b9 b10 b11 b12 b13 b14 b15)"
| "uuid_of_bytes _ = None"

definition dashed_positions :: "nat list" where
  "dashed_positions = [0, 2, 4, 6, 9, 11, 14, 16, 19, 21, 24, 26, 28, 30, 32, 34]"

definition plain_positions :: "nat list" where
  "plain_positions = [0, 2, 4, 6, 8, 10, 12, 14, 16, 18, 20, 22, 24, 26, 28, 30]"

definition lower_char :: "char \<Rightarrow> char" where
  "lower_char c =
     (let n = of_char c :: nat in if 65 \<le> n \<and> n \<le> 90 then char_of (n + 32) else c)"

text \<open>The 36-character body: dashes at 8, 13, 18, 23 and hex digits elsewhere.\<close>

definition parse_dashed :: "string \<Rightarrow> UUID option" where
  "parse_dashed s =
     (if s ! 8 \<noteq> CHR ''-'' \<or> s ! 13 \<noteq> CHR ''-'' \<or> s ! 18 \<noteq> CHR ''-'' \<or> s ! 23 \<noteq> CHR ''-''
      then None
      else (case xtobs s dashed_positions of None \<Rightarrow> None | Some bs \<Rightarrow> uuid_of_bytes bs))"

text \<open>
  \<^verbatim>\<open>uuid.Parse\<close> switches on the length of its input: 36 (canonical), 45 (with the
  prefix \<^verbatim>\<open>urn:uuid:\<close> in any case), 38 (the first character is dropped and the last
  ignored: braces are not checked), 32 (hex digits only); any other length is an error.
  The error value itself is not kept: None stands for every error of the library.
\<close>

definition uuid_Parse :: "string \<Rightarrow> UUID option" where
  "uuid_Parse s =
     (if length s = 36 then parse_dashed s
      else if length s = 45 then
        (if map lower_char (take 9 s) = ''urn:uuid:'' then parse_dashed (drop 9 s) else None)
      else if length s = 38 then parse_dashed (drop 1 s)
      else if length s = 32 then
        (case xtobs s plain_positions of None \<Rightarrow> None | Some bs \<Rightarrow> uuid_of_bytes bs)
      else None)"

section \<open>Provider identifiers (package providerid)\<close>

definition ProviderPrefix :: string where
  "ProviderPrefix = ''nvidia-bmm://''"

record ProviderID =
  OrgName :: string
  TenantName :: string
  SiteName :: string
  InstanceID :: UUID

definition NewProviderID :: "string \<Rightarrow> string \<Rightarrow> string \<Rightarrow> UUID \<Rightarrow> ProviderID" where
  "NewProviderID orgName tenantName siteName instanceID =
     \<lparr>OrgName = orgName, TenantName = tenantName, SiteName = siteName,
      InstanceID = instanceID\<rparr>"

text \<open>\<^verbatim>\<open>fmt.Sprintf("%s%s/%s/%s/%s", ProviderPrefix, org, tenant, site, id.String())\<close>\<close>

definition String :: "ProviderID \<Rightarrow> string" where
  "String p =
     ProviderPrefix @ OrgName p @ ''/'' @ TenantName p @ ''/'' @ SiteName p @ ''/'' @
     uuid_String (InstanceID p)"

text \<open>
  \<^verbatim>\<open>strings.Split(s, "/")\<close> for a one-character separator: the pieces between the
  separators, in order; the empty string gives one empty piece.
\<close>

fun Split :: "string \<Rightarrow> char \<Rightarrow> string list" where
  "Split [] sep = [[]]"
| "Split (c # cs) sep =
     (if c = sep then [] # Split cs sep
      else (case Split cs sep of [] \<Rightarrow> [[c]] | p # ps \<Rightarrow> (c # p) # ps))"

definition HasPrefix :: "string \<Rightarrow> string \<Rightarrow> bool" where
  "HasPrefix s pre = (take (length pre) s = pre)"

definition TrimPrefix :: "string \<Rightarrow> string \<Rightarrow> string" where
  "TrimPrefix s pre = (if HasPrefix s pre then drop (length pre) s else s)"

definition ParseProviderID :: "string \<Rightarrow> error + ProviderID" where
  "ParseProviderID providerIDStr =
     (if \<not> HasPrefix providerIDStr ProviderPrefix
      then Inl (Errorf ''invalid provider ID prefix'')
      else
        let trimmed = TrimPrefix providerIDStr ProviderPrefix;
            parts = Split trimmed CHR ''/''
        in if length parts = 3 then
             (case uuid_Parse (parts ! 2) of
                None \<Rightarrow> Inl (Errorf_w ''invalid instance ID'' (External ''uuid''))
              | Some instanceID \<Rightarrow>
                  Inr \<lparr>OrgName = parts ! 0, TenantName = '''', SiteName = parts ! 1,
                       InstanceID = instanceID\<rparr>)
           else if length parts = 4 then
             (case uuid_Parse (parts ! 3) of
                None \<Rightarrow> Inl (Errorf_w ''invalid instance ID'' (External ''uuid''))
              | Some instanceID \<Rightarrow>
                  Inr \<lparr>OrgName = parts ! 0, TenantName = parts ! 1, SiteName = parts ! 2,
                       InstanceID = instanceID\<rparr>)
           else Inl (Errorf ''invalid provider ID format, expected 3 or 4 segments''))"

section \<open>API types (package v1beta1)\<close>

text \<open>
  The structs of package v1beta1, as README.md quotes their declarations (the Go file is
  not among the sources): the provider spec, the provider status and their parts. The
  embedded \<^verbatim>\<open>TypeMeta\<close> and \<^verbatim>\<open>ObjectMeta\<close>, which the actuator never reads, are left
  out; a Go map is an association list, a pointer an option; \<^verbatim>\<open>metav1.Condition\<close> is
  opaque. Fields of the status carry the prefix \<open>st_\<close>, since \<open>InstanceID\<close> and
  \<open>MachineID\<close> are fields of other records.
\<close>

record CredentialsSecretReference =
  secret_Name :: string
  secret_Namespace :: string

record AdditionalSubnet =
  add_SubnetID :: string
  add_IsPhysical :: bool

record NvidiaBMMMachineProviderSpec =
  SiteID :: string
  TenantID :: string
  VpcID :: string
  SubnetID :: string
  AdditionalSubnetIDs :: "AdditionalSubnet list"
  InstanceTypeID :: string
  MachineID :: string
  AllowUnhealthyMachine :: bool
  UserData :: string
  SSHKeyGroupIDs :: "string list"
  Labels :: "(string \<times> string) list"
  CredentialsSecret :: CredentialsSecretReference

record MachineAddress =
  addr_Type :: string
  addr_Address :: string

type_synonym condition = string

record NvidiaBMMMachineProviderStatus =
  st_InstanceID :: "string option"
  st_MachineID :: "string option"
  st_InstanceState :: "string option"
  st_Addresses :: "MachineAddress list"
  st_Conditions :: "condition list"

section \<open>The remote platform client (package restclient)\<close>

text \<open>
  The request and response types of the REST client, with the fields the actuator sets
  and reads; a Go pointer field is an option. \<open>StatusCode()\<close> is a field of each
  response. The fields of the request carry the prefix \<open>req_\<close>, those of an instance
  \<open>inst_\<close>.
\<close>

record InterfaceCreateRequest =
  SubnetId :: "UUID option"
  IsPhysical :: "bool option"

record CreateInstanceJSONRequestBody =
  req_Name :: string
  req_TenantId :: UUID
  req_VpcId :: UUID
  req_Interfaces :: "InterfaceCreateRequest list option"
  req_PhoneHomeEnabled :: "bool option"
  req_InstanceTypeId :: "UUID option"
  req_MachineId :: "string option"
  req_AllowUnhealthyMachine :: "bool option"
  req_UserData :: "string option"
  req_SshKeyGroupIds :: "UUID list option"
  req_Labels :: "(string \<times> string) list option"

record Interface =
  IpAddresses :: "string list option"

record Instance =
  inst_Id :: "UUID option"
  inst_MachineId :: "string option"
  inst_Status :: "string option"
  inst_Interfaces :: "Interface list option"

record CreateInstanceResponse =
  JSON201 :: "Instance option"
  create_StatusCode :: int

record GetInstanceResponse =
  JSON200 :: "Instance option"
  get_StatusCode :: int

record DeleteInstanceResponse =
  delete_StatusCode :: int

text \<open>
  \<^verbatim>\<open>NvidiaBMMClientInterface\<close>: the three calls, each a function from its arguments
  (organisation, request body or instance id) to an error or a response. The delete
  body is always the empty request and the get parameters are always nil.
\<close>

record NvidiaBMMClientInterface =
  CreateInstanceWithResponse ::
    "string \<Rightarrow> CreateInstanceJSONRequestBody \<Rightarrow> error + CreateInstanceResponse"
  GetInstanceWithResponse :: "string \<Rightarrow> UUID \<Rightarrow> error + GetInstanceResponse"
  DeleteInstanceWithResponse :: "string \<Rightarrow> UUID \<Rightarrow> error + DeleteInstanceResponse"

section \<open>The resource document\<close>

text \<open>
  The actuator receives a \<^verbatim>\<open>runtime.Object\<close> and asserts its dynamic type twice: it
  must be a \<^verbatim>\<open>client.Object\<close>, and the helpers need an
  \<^verbatim>\<open>*unstructured.Unstructured\<close>.
\<close>

datatype objectKind = RuntimeObject | ClientObject | UnstructuredObject

text \<open>
  What stands under a top-level key of the document (\<open>spec\<close>, \<open>status\<close>): no such
  key, a JSON null, a value that is not a map, or a map. \<^verbatim>\<open>NestedFieldCopy\<close> reports
  "not found" for the first two and an accessor error for the third;
  \<^verbatim>\<open>SetNestedField\<close> creates the map for the first and fails for the second and third.
\<close>

datatype 'a node = Absent | Null | NonMap | Obj 'a

text \<open>
  The outcome of reading and decoding a subtree into its Go struct (extract, marshal,
  unmarshal): \<open>Missing\<close> when \<^verbatim>\<open>NestedFieldCopy\<close> does not find it (or fails below the
  top-level map), \<open>Malformed\<close> when the JSON decoder rejects it, \<open>Present x\<close> when it
  decodes to \<open>x\<close>.
\<close>

datatype 'a field = Missing | Malformed | Present 'a

record specFields =
  providerSpec_value :: "NvidiaBMMMachineProviderSpec field"
  providerID :: "string option"

record Machine =
  objKind :: objectKind
  objName :: string
  finalizers :: "string list"
  m_spec :: "specFields node"
  m_status :: "NvidiaBMMMachineProviderStatus field node"

section \<open>The resource store and the actuator\<close>

text \<open>
  The calls of the controller-runtime client that the code makes: reading a secret's
  data by name and namespace, writing the status subresource, writing the object. Each
  write returns an error or nil (None); after a write that succeeds the object in memory
  is the object that was sent.
\<close>

record k8sClient =
  Get :: "string \<Rightarrow> string \<Rightarrow> error + (string \<rightharpoonup> string)"
  Status_Update :: "Machine \<Rightarrow> error option"
  Update_object :: "Machine \<Rightarrow> error option"

text \<open>
  The struct \<^verbatim>\<open>Actuator\<close>; \<open>eventRecorder\<close> says whether the recorder is non-nil,
  \<open>nvidiaBmmClient\<close> is the injected client, if any.
\<close>

record Actuator =
  client :: k8sClient
  eventRecorder :: bool
  nvidiaBmmClient :: "NvidiaBMMClientInterface option"
  orgName :: string

text \<open>
  What an operation does to the outside, in order: calls of the remote platform, writes
  to the resource store (with the object sent) and events (type and reason).
\<close>

datatype effect =
    CreateInstanceCall string CreateInstanceJSONRequestBody
  | GetInstanceCall string UUID
  | DeleteInstanceCall string UUID
  | StatusUpdateCall Machine
  | UpdateCall Machine
  | Eventf string string

fun isRemoteCall :: "effect \<Rightarrow> bool" where
  "isRemoteCall (CreateInstanceCall _ _) = True"
| "isRemoteCall (GetInstanceCall _ _) = True"
| "isRemoteCall (DeleteInstanceCall _ _) = True"
| "isRemoteCall _ = False"

definition recordEvent :: "Actuator \<Rightarrow> string \<Rightarrow> string \<Rightarrow> effect list" where
  "recordEvent a eventtype reason = (if eventRecorder a then [Eventf eventtype reason] else [])"

definition uuidError :: error where
  "uuidError = External ''uuid''"

subsection \<open>buildInstanceRequest\<close>

fun additionalInterfaces :: "AdditionalSubnet list \<Rightarrow> error + InterfaceCreateRequest list" where
  "additionalInterfaces [] = Inr []"
| "additionalInterfaces (additionalSubnet # others) =
     (case uuid_Parse (add_SubnetID additionalSubnet) of
        None \<Rightarrow> Inl (Errorf_w ''failed to parse additional subnet ID'' uuidError)
      | Some addSubnetUUID \<Rightarrow>
          (case additionalInterfaces others of
             Inl e \<Rightarrow> Inl e
           | Inr ifs \<Rightarrow>
               Inr (\<lparr>SubnetId = Some addSubnetUUID,
                     IsPhysical = Some (add_IsPhysical additionalSubnet)\<rparr> # ifs)))"

fun sshKeyGroupUUIDs :: "string list \<Rightarrow> error + UUID list" where
  "sshKeyGroupUUIDs [] = Inr []"
| "sshKeyGroupUUIDs (keyGroupID # others) =
     (case uuid_Parse keyGroupID of
        None \<Rightarrow> Inl (Errorf_w ''failed to parse SSH key group ID'' uuidError)
      | Some keyGroupUUID \<Rightarrow>
          (case sshKeyGroupUUIDs others of
             Inl e \<Rightarrow> Inl e
           | Inr us \<Rightarrow> Inr (keyGroupUUID # us)))"

definition buildInstanceRequest ::
  "string \<Rightarrow> NvidiaBMMMachineProviderSpec \<Rightarrow> error + CreateInstanceJSONRequestBody" where
  "buildInstanceRequest name providerSpec =
     (case uuid_Parse (SubnetID providerSpec) of
        None \<Rightarrow> Inl (Errorf_w ''failed to parse subnet ID'' uuidError)
      | Some subnetUUID \<Rightarrow>
     (case additionalInterfaces (AdditionalSubnetIDs providerSpec) of
        Inl e \<Rightarrow> Inl e
      | Inr additional \<Rightarrow>
     (case uuid_Parse (TenantID providerSpec) of
        None \<Rightarrow> Inl (Errorf_w ''failed to parse tenant ID'' uuidError)
      | Some tenantUUID \<Rightarrow>
     (case uuid_Parse (VpcID providerSpec) of
        None \<Rightarrow> Inl (Errorf_w ''failed to parse VPC ID'' uuidError)
      | Some vpcUUID \<Rightarrow>
     (let interfaces = \<lparr>SubnetId = Some subnetUUID, IsPhysical = Some False\<rparr> # additional;
          req = \<lparr>req_Name = name, req_TenantId = tenantUUID, req_VpcId = vpcUUID,
                 req_Interfaces = Some interfaces, req_PhoneHomeEnabled = Some True,
                 req_InstanceTypeId = None, req_MachineId = None,
                 req_AllowUnhealthyMachine = None, req_UserData = None,
                 req_SshKeyGroupIds = None, req_Labels = None\<rparr>
      in
     (case (if InstanceTypeID providerSpec \<noteq> ''''
            then (case uuid_Parse (InstanceTypeID providerSpec) of
                    None \<Rightarrow> Inl (Errorf_w ''failed to parse instance type ID'' uuidError)
                  | Some instanceTypeUUID \<Rightarrow>
                      Inr (req\<lparr>req_InstanceTypeId := Some instanceTypeUUID\<rparr>))
            else Inr req) of
        Inl e \<Rightarrow> Inl e
      | Inr req1 \<Rightarrow>
     (let req2 = (if MachineID providerSpec \<noteq> ''''
                  then req1\<lparr>req_MachineId := Some (MachineID providerSpec)\<rparr> else req1);
          req3 = (if AllowUnhealthyMachine providerSpec
                  then req2\<lparr>req_AllowUnhealthyMachine := Some True\<rparr> else req2);
          req4 = (if UserData providerSpec \<noteq> ''''
                  then req3\<lparr>req_UserData := Some (UserData providerSpec)\<rparr> else req3)
      in
     (case (if SSHKeyGroupIDs providerSpec \<noteq> []
            then (case sshKeyGroupUUIDs (SSHKeyGroupIDs providerSpec) of
                    Inl e \<Rightarrow> Inl e
                  | Inr us \<Rightarrow> Inr (req4\<lparr>req_SshKeyGroupIds := Some us\<rparr>))
            else Inr req4) of
        Inl e \<Rightarrow> Inl e
      | Inr req5 \<Rightarrow>
          Inr (if Labels providerSpec \<noteq> []
               then req5\<lparr>req_Labels := Some (Labels providerSpec)\<rparr> else req5)))))))))"

subsection \<open>Reading and writing the document\<close>

definition getProviderSpec :: "Machine \<Rightarrow> error + NvidiaBMMMachineProviderSpec" where
  "getProviderSpec machine =
     (if objKind machine \<noteq> UnstructuredObject then Inl (Errorf ''machine is not unstructured'')
      else
        (case m_spec machine of
           Obj specMap \<Rightarrow>
             (case providerSpec_value specMap of
                Missing \<Rightarrow> Inl (Errorf ''providerSpec.value not found'')
              | Malformed \<Rightarrow>
                  Inl (Errorf_w ''failed to unmarshal providerSpec'' (External ''json''))
              | Present providerSpec \<Rightarrow> Inr providerSpec)
         | _ \<Rightarrow> Inl (Errorf ''providerSpec.value not found'')))"

definition emptyStatus :: NvidiaBMMMachineProviderStatus where
  "emptyStatus =
     \<lparr>st_InstanceID = None, st_MachineID = None, st_InstanceState = None,
      st_Addresses = [], st_Conditions = []\<rparr>"

definition getProviderStatus :: "Machine \<Rightarrow> error + NvidiaBMMMachineProviderStatus" where
  "getProviderStatus machine =
     (if objKind machine \<noteq> UnstructuredObject then Inl (Errorf ''machine is not unstructured'')
      else
        (case m_status machine of
           Absent \<Rightarrow> Inr emptyStatus
         | Null \<Rightarrow> Inr emptyStatus
         | NonMap \<Rightarrow>
             Inl (Errorf_w ''failed to get providerStatus'' (External ''unstructured''))
         | Obj Missing \<Rightarrow> Inr emptyStatus
         | Obj Malformed \<Rightarrow>
             Inl (Errorf_w ''failed to unmarshal providerStatus'' (External ''json''))
         | Obj (Present providerStatus) \<Rightarrow> Inr providerStatus))"

definition setProviderStatus ::
  "Actuator \<Rightarrow> Machine \<Rightarrow> NvidiaBMMMachineProviderStatus \<Rightarrow>
     error option \<times> Machine \<times> effect list" where
  "setProviderStatus a machine providerStatus =
     (if objKind machine \<noteq> UnstructuredObject
      then (Some (Errorf ''machine is not unstructured''), machine, [])
      else if m_status machine = Null \<or> m_status machine = NonMap
      then (Some (Errorf_w ''failed to set providerStatus'' (External ''unstructured'')),
            machine, [])
      else
        (let machine' = machine\<lparr>m_status := Obj (Present providerStatus)\<rparr> in
         (case Status_Update (client a) machine' of
            Some err \<Rightarrow>
              (Some (Errorf_w ''failed to update machine status'' err), machine',
               [StatusUpdateCall machine'])
          | None \<Rightarrow> (None, machine', [StatusUpdateCall machine']))))"

definition setProviderID ::
  "Actuator \<Rightarrow> Machine \<Rightarrow> string \<Rightarrow> error option \<times> Machine \<times> effect list" where
  "setProviderID a machine pid =
     (if objKind machine \<noteq> UnstructuredObject
      then (Some (Errorf ''machine is not unstructured''), machine, [])
      else
        (case (case m_spec machine of
                 Absent \<Rightarrow> Some \<lparr>providerSpec_value = Missing, providerID = Some pid\<rparr>
               | Obj specMap \<Rightarrow> Some (specMap\<lparr>providerID := Some pid\<rparr>)
               | _ \<Rightarrow> None) of
           None \<Rightarrow>
             (Some (Errorf_w ''failed to set providerID'' (External ''unstructured'')),
              machine, [])
         | Some specMap' \<Rightarrow>
             (let machine' = machine\<lparr>m_spec := Obj specMap'\<rparr> in
              (case Update_object (client a) machine' of
                 Some err \<Rightarrow>
                   (Some (Errorf_w ''failed to update machine'' err), machine',
                    [UpdateCall machine'])
               | None \<Rightarrow> (None, machine', [UpdateCall machine'])))))"

subsection \<open>getNvidiaBmmClient\<close>

text \<open>
  \<open>NewClientWithAuth\<close> is the constructor of the REST client library, from the
  endpoint and the token to a client or an error; it is a parameter of every operation.
\<close>

type_synonym clientFactory = "string \<Rightarrow> string \<Rightarrow> error + NvidiaBMMClientInterface"

definition getNvidiaBmmClient ::
  "clientFactory \<Rightarrow> Actuator \<Rightarrow> NvidiaBMMMachineProviderSpec \<Rightarrow>
     error + (NvidiaBMMClientInterface \<times> string)" where
  "getNvidiaBmmClient NewClientWithAuth a providerSpec =
     (case nvidiaBmmClient a of
        Some injected \<Rightarrow> Inr (injected, orgName a)
      | None \<Rightarrow>
     (case Get (client a) (secret_Name (CredentialsSecret providerSpec))
             (secret_Namespace (CredentialsSecret providerSpec)) of
        Inl err \<Rightarrow> Inl (Errorf_w ''failed to get credentials secret'' err)
      | Inr secretData \<Rightarrow>
     (case secretData ''endpoint'' of
        None \<Rightarrow> Inl (Errorf ''secret is missing endpoint field'')
      | Some endpoint \<Rightarrow>
     (case secretData ''orgName'' of
        None \<Rightarrow> Inl (Errorf ''secret is missing orgName field'')
      | Some org \<Rightarrow>
     (case secretData ''token'' of
        None \<Rightarrow> Inl (Errorf ''secret is missing token field'')
      | Some token \<Rightarrow>
     (case NewClientWithAuth endpoint token of
        Inl err \<Rightarrow> Inl (Errorf_w ''failed to create NVIDIA BMM client'' err)
      | Inr bmmClient \<Rightarrow> Inr (bmmClient, org)))))))"

subsection \<open>The four operations\<close>

text \<open>
  Every address of every interface of an instance, tagged \<open>InternalIP\<close>, in the order
  of the payload (the two nested loops of Create and Update).
\<close>

definition instanceAddresses :: "Instance \<Rightarrow> MachineAddress list" where
  "instanceAddresses instance =
     (case inst_Interfaces instance of
        None \<Rightarrow> []
      | Some ifaces \<Rightarrow>
          concat (map (\<lambda>iface.
            (case IpAddresses iface of
               None \<Rightarrow> []
             | Some ipAddrs \<Rightarrow>
                 map (\<lambda>ipAddr. \<lparr>addr_Type = ''InternalIP'', addr_Address = ipAddr\<rparr>) ipAddrs))
            ifaces))"

text \<open>
  Create returns the error (None for nil), the object as the call leaves it in memory and
  the effects in order. A nil \<open>Id\<close> in the payload makes \<^verbatim>\<open>instance.Id.String()\<close> panic.
\<close>

definition Create ::
  "clientFactory \<Rightarrow> Actuator \<Rightarrow> Machine \<Rightarrow> error option \<times> Machine \<times> effect list" where
  "Create NewClientWithAuth a machine =
     (if objKind machine = RuntimeObject
      then (Some (Errorf ''machine is not a client.Object''), machine, [])
      else
     (case getProviderSpec machine of
        Inl err \<Rightarrow> (Some (Errorf_w ''failed to get provider spec'' err), machine, [])
      | Inr providerSpec \<Rightarrow>
     (case getNvidiaBmmClient NewClientWithAuth a providerSpec of
        Inl err \<Rightarrow> (Some (Errorf_w ''failed to create NVIDIA BMM client'' err), machine, [])
      | Inr (bmmClient, org) \<Rightarrow>
     (case buildInstanceRequest (objName machine) providerSpec of
        Inl err \<Rightarrow> (Some err, machine, [])
      | Inr instanceReq \<Rightarrow>
     (case CreateInstanceWithResponse bmmClient org instanceReq of
        Inl err \<Rightarrow>
          (Some (Errorf_w ''failed to create instance'' err), machine,
           CreateInstanceCall org instanceReq # recordEvent a ''Warning'' ''FailedCreate'')
      | Inr resp \<Rightarrow>
     (case JSON201 resp of
        None \<Rightarrow>
          (Some (Errorf_d ''create instance returned no data, status code''
                   (create_StatusCode resp)),
           machine,
           CreateInstanceCall org instanceReq # recordEvent a ''Warning'' ''FailedCreate'')
      | Some instance \<Rightarrow>
     (case inst_Id instance of
        None \<Rightarrow>
          (Some (Panic ''nil pointer dereference''), machine,
           [CreateInstanceCall org instanceReq])
      | Some instanceId \<Rightarrow>
     (let providerStatus =
            \<lparr>st_InstanceID = Some (uuid_String instanceId),
             st_MachineID = inst_MachineId instance,
             st_InstanceState = inst_Status instance,
             st_Addresses = instanceAddresses instance,
             st_Conditions = []\<rparr>
      in
     (case setProviderStatus a machine providerStatus of
        (Some err, machine1, w1) \<Rightarrow>
          (Some (Errorf_w ''failed to update provider status'' err), machine1,
           CreateInstanceCall org instanceReq # w1)
      | (None, machine1, w1) \<Rightarrow>
     (let pid = NewProviderID org (TenantID providerSpec) (SiteID providerSpec) instanceId in
     (case setProviderID a machine1 (String pid) of
        (Some err, machine2, w2) \<Rightarrow>
          (Some (Errorf_w ''failed to set provider ID'' err), machine2,
           CreateInstanceCall org instanceReq # w1 @ w2)
      | (None, machine2, w2) \<Rightarrow>
          (None, machine2,
           CreateInstanceCall org instanceReq # w1 @ w2 @
           recordEvent a ''Normal'' ''Created''))))))))))))"

definition Update ::
  "clientFactory \<Rightarrow> Actuator \<Rightarrow> Machine \<Rightarrow> error option \<times> Machine \<times> effect list" where
  "Update NewClientWithAuth a machine =
     (if objKind machine = RuntimeObject
      then (Some (Errorf ''machine is not a client.Object''), machine, [])
      else
     (case getProviderSpec machine of
        Inl err \<Rightarrow> (Some (Errorf_w ''failed to get provider spec'' err), machine, [])
      | Inr providerSpec \<Rightarrow>
     (case getProviderStatus machine of
        Inl err \<Rightarrow> (Some (Errorf_w ''failed to get provider status'' err), machine, [])
      | Inr providerStatus \<Rightarrow>
     (case st_InstanceID providerStatus of
        None \<Rightarrow> (Some (Errorf ''instance ID not set in provider status''), machine, [])
      | Some instanceID \<Rightarrow>
     (case getNvidiaBmmClient NewClientWithAuth a providerSpec of
        Inl err \<Rightarrow> (Some (Errorf_w ''failed to create NVIDIA BMM client'' err), machine, [])
      | Inr (bmmClient, org) \<Rightarrow>
     (case uuid_Parse instanceID of
        None \<Rightarrow> (Some (Errorf_w ''failed to parse instance ID'' uuidError), machine, [])
      | Some instanceUUID \<Rightarrow>
     (case GetInstanceWithResponse bmmClient org instanceUUID of
        Inl err \<Rightarrow>
          (Some (Errorf_w ''failed to get instance'' err), machine,
           [GetInstanceCall org instanceUUID])
      | Inr resp \<Rightarrow>
     (case JSON200 resp of
        None \<Rightarrow>
          (Some (Errorf_d ''get instance returned no data, status code'' (get_StatusCode resp)),
           machine, [GetInstanceCall org instanceUUID])
      | Some instance \<Rightarrow>
     (let status1 =
            (case inst_Status instance of
               None \<Rightarrow> providerStatus
             | Some s \<Rightarrow> providerStatus\<lparr>st_InstanceState := Some s\<rparr>);
          status2 =
            (case inst_MachineId instance of
               None \<Rightarrow> status1
             | Some machineId \<Rightarrow> status1\<lparr>st_MachineID := Some machineId\<rparr>);
          status3 = status2\<lparr>st_Addresses := instanceAddresses instance\<rparr>
      in
     (case setProviderStatus a machine status3 of
        (Some err, machine1, w1) \<Rightarrow>
          (Some (Errorf_w ''failed to update provider status'' err), machine1,
           GetInstanceCall org instanceUUID # w1)
      | (None, machine1, w1) \<Rightarrow>
          (None, machine1, GetInstanceCall org instanceUUID # w1)))))))))))"

text \<open>Exists and Delete leave the object as it is: they return the result and the effects.\<close>

definition Exists ::
  "clientFactory \<Rightarrow> Actuator \<Rightarrow> Machine \<Rightarrow> (bool \<times> error option) \<times> effect list" where
  "Exists NewClientWithAuth a machine =
     (if objKind machine = RuntimeObject
      then ((False, Some (Errorf ''machine is not a client.Object'')), [])
      else
     (case getProviderStatus machine of
        Inl err \<Rightarrow> ((False, Some (Errorf_w ''failed to get provider status'' err)), [])
      | Inr providerStatus \<Rightarrow>
     (case st_InstanceID providerStatus of
        None \<Rightarrow> ((False, None), [])
      | Some instanceID \<Rightarrow>
     (case getProviderSpec machine of
        Inl err \<Rightarrow> ((False, Some (Errorf_w ''failed to get provider spec'' err)), [])
      | Inr providerSpec \<Rightarrow>
     (case getNvidiaBmmClient NewClientWithAuth a providerSpec of
        Inl err \<Rightarrow> ((False, Some (Errorf_w ''failed to create NVIDIA BMM client'' err)), [])
      | Inr (bmmClient, org) \<Rightarrow>
     (case uuid_Parse instanceID of
        None \<Rightarrow> ((False, Some (Errorf_w ''failed to parse instance ID'' uuidError)), [])
      | Some instanceUUID \<Rightarrow>
     (case GetInstanceWithResponse bmmClient org instanceUUID of
        Inl err \<Rightarrow> ((False, None), [GetInstanceCall org instanceUUID])
      | Inr resp \<Rightarrow>
          ((JSON200 resp \<noteq> None, None), [GetInstanceCall org instanceUUID]))))))))"

definition Delete ::
  "clientFactory \<Rightarrow> Actuator \<Rightarrow> Machine \<Rightarrow> error option \<times> effect list" where
  "Delete NewClientWithAuth a machine =
     (if objKind machine = RuntimeObject
      then (Some (Errorf ''machine is not a client.Object''), [])
      else
     (case getProviderSpec machine of
        Inl err \<Rightarrow> (Some (Errorf_w ''failed to get provider spec'' err), [])
      | Inr providerSpec \<Rightarrow>
     (case getProviderStatus machine of
        Inl err \<Rightarrow> (Some (Errorf_w ''failed to get provider status'' err), [])
      | Inr providerStatus \<Rightarrow>
     (case st_InstanceID providerStatus of
        None \<Rightarrow> (None, [])
      | Some instanceID \<Rightarrow>
     (case getNvidiaBmmClient NewClientWithAuth a providerSpec of
        Inl err \<Rightarrow> (Some (Errorf_w ''failed to create NVIDIA BMM client'' err), [])
      | Inr (bmmClient, org) \<Rightarrow>
     (case uuid_Parse instanceID of
        None \<Rightarrow> (Some (Errorf_w ''failed to parse instance ID'' uuidError), [])
      | Some instanceUUID \<Rightarrow>
     (case DeleteInstanceWithResponse bmmClient org instanceUUID of
        Inl err \<Rightarrow>
          (Some (Errorf_w ''failed to delete instance'' err),
           DeleteInstanceCall org instanceUUID # recordEvent a ''Warning'' ''FailedDelete'')
      | Inr resp \<Rightarrow>
          (if delete_StatusCode resp \<noteq> 204 \<and> delete_StatusCode resp \<noteq> 404
           then (Some (Errorf_d ''delete instance returned unexpected status''
                         (delete_StatusCode resp)),
                 DeleteInstanceCall org instanceUUID #
                 recordEvent a ''Warning'' ''FailedDelete'')
           else (None,
                 DeleteInstanceCall org instanceUUID #
                 recordEvent a ''Normal'' ''Deleted'')))))))))"

subsection \<open>Sequences of operations on one resource\<close>

datatype operation = OpCreate | OpExists | OpUpdate | OpDelete

text \<open>
  One operation on the object in memory, as a caller that keeps the same object across
  calls sees it. Each step has its own surroundings (the client constructor and the
  actuator with its clients), since the remote platform and the store answer
  differently over time.
\<close>

fun apply_operation :: "operation \<times> clientFactory \<times> Actuator \<Rightarrow> Machine \<Rightarrow> Machine" where
  "apply_operation (OpCreate, nc, a) machine = fst (snd (Create nc a machine))"
| "apply_operation (OpUpdate, nc, a) machine = fst (snd (Update nc a machine))"
| "apply_operation (OpExists, nc, a) machine = machine"
| "apply_operation (OpDelete, nc, a) machine = machine"

fun run_operations :: "(operation \<times> clientFactory \<times> Actuator) list \<Rightarrow> Machine \<Rightarrow> Machine" where
  "run_operations [] machine = machine"
| "run_operations (step # steps) machine = run_operations steps (apply_operation step machine)"

definition providerID_of :: "Machine \<Rightarrow> string option" where
  "providerID_of machine =
     (case m_spec machine of Obj specMap \<Rightarrow> providerID specMap | _ \<Rightarrow> None)"

section \<open>The reconciler (package controllers/machine)\<close>

definition MachineFinalizer :: string where
  "MachineFinalizer = ''machine.openshift.io/nvidia-bmm''"

definition RequeueAfterSeconds :: nat where
  "RequeueAfterSeconds = 30"

text \<open>\<^verbatim>\<open>ctrl.Result\<close>, with \<open>RequeueAfter\<close> in seconds.\<close>

record Result =
  Requeue :: bool
  RequeueAfter :: nat

definition emptyResult :: Result where
  "emptyResult = \<lparr>Requeue = False, RequeueAfter = 0\<rparr>"

text \<open>The finalizer helpers of \<^verbatim>\<open>controllerutil\<close>.\<close>

definition ContainsFinalizer :: "Machine \<Rightarrow> string \<Rightarrow> bool" where
  "ContainsFinalizer obj finalizer = (finalizer \<in> set (finalizers obj))"

definition AddFinalizer :: "Machine \<Rightarrow> string \<Rightarrow> Machine" where
  "AddFinalizer obj finalizer =
     (if finalizer \<in> set (finalizers obj) then obj
      else obj\<lparr>finalizers := finalizers obj @ [finalizer]\<rparr>)"

definition RemoveFinalizer :: "Machine \<Rightarrow> string \<Rightarrow> Machine" where
  "RemoveFinalizer obj finalizer =
     obj\<lparr>finalizers := filter (\<lambda>f. f \<noteq> finalizer) (finalizers obj)\<rparr>"

record MachineReconciler =
  r_Client :: k8sClient
  r_Actuator :: Actuator

definition reconcileNormal ::
  "clientFactory \<Rightarrow> MachineReconciler \<Rightarrow> Machine \<Rightarrow>
     (Result \<times> error option) \<times> Machine \<times> effect list" where
  "reconcileNormal NewClientWithAuth r machineObj =
     (if \<not> ContainsFinalizer machineObj MachineFinalizer then
        (let machineObj' = AddFinalizer machineObj MachineFinalizer in
         (case Update_object (r_Client r) machineObj' of
            Some err \<Rightarrow>
              ((emptyResult, Some (Errorf_w ''failed to add finalizer'' err)), machineObj',
               [UpdateCall machineObj'])
          | None \<Rightarrow>
              ((\<lparr>Requeue = True, RequeueAfter = 0\<rparr>, None), machineObj',
               [UpdateCall machineObj'])))
      else
     (case Exists NewClientWithAuth (r_Actuator r) machineObj of
        ((exists, Some err), w0) \<Rightarrow>
          ((\<lparr>Requeue = False, RequeueAfter = RequeueAfterSeconds\<rparr>, Some err), machineObj, w0)
      | ((exists, None), w0) \<Rightarrow>
          (if \<not> exists then
             (case Create NewClientWithAuth (r_Actuator r) machineObj of
                (Some err, machineObj', w1) \<Rightarrow>
                  ((\<lparr>Requeue = False, RequeueAfter = RequeueAfterSeconds\<rparr>, Some err),
                   machineObj', w0 @ w1)
              | (None, machineObj', w1) \<Rightarrow>
                  ((\<lparr>Requeue = False, RequeueAfter = 10\<rparr>, None), machineObj', w0 @ w1))
           else
             (case Update NewClientWithAuth (r_Actuator r) machineObj of
                (Some err, machineObj', w1) \<Rightarrow>
                  ((\<lparr>Requeue = False, RequeueAfter = RequeueAfterSeconds\<rparr>, Some err),
                   machineObj', w0 @ w1)
              | (None, machineObj', w1) \<Rightarrow>
                  ((\<lparr>Requeue = False, RequeueAfter = RequeueAfterSeconds\<rparr>, None),
                   machineObj', w0 @ w1)))))"

definition reconcileDelete ::
  "clientFactory \<Rightarrow> MachineReconciler \<Rightarrow> Machine \<Rightarrow>
     (Result \<times> error option) \<times> Machine \<times> effect list" where
  "reconcileDelete NewClientWithAuth r machineObj =
     (case Delete NewClientWithAuth (r_Actuator r) machineObj of
        (Some err, w0) \<Rightarrow> ((emptyResult, Some err), machineObj, w0)
      | (None, w0) \<Rightarrow>
          (let machineObj' = RemoveFinalizer machineObj MachineFinalizer in
           (case Update_object (r_Client r) machineObj' of
              Some err \<Rightarrow>
                ((emptyResult, Some (Errorf_w ''failed to remove finalizer'' err)), machineObj',
                 w0 @ [UpdateCall machineObj'])
            | None \<Rightarrow> ((emptyResult, None), machineObj', w0 @ [UpdateCall machineObj']))))"

section \<open>Constructors and the fixtures of the tests\<close>

definition NewActuator :: "k8sClient \<Rightarrow> bool \<Rightarrow> Actuator" where
  "NewActuator k8s recorder =
     \<lparr>client = k8s, eventRecorder = recorder, nvidiaBmmClient = None, orgName = ''''\<rparr>"

definition NewActuatorWithClient ::
  "k8sClient \<Rightarrow> bool \<Rightarrow> NvidiaBMMClientInterface \<Rightarrow> string \<Rightarrow> Actuator" where
  "NewActuatorWithClient k8s recorder bmmClient org =
     \<lparr>client = k8s, eventRecorder = recorder, nvidiaBmmClient = Some bmmClient,
      orgName = org\<rparr>"

text \<open>
  \<^verbatim>\<open>mockNvidiaBmmClient\<close> of the integration test with no function overridden: create
  answers 201 with an instance that has only an id (\<^verbatim>\<open>uuid.New()\<close> there, the
  parameter here), get answers 200 with the id asked for, delete answers 204.
\<close>

definition mockNvidiaBmmClient :: "UUID \<Rightarrow> NvidiaBMMClientInterface" where
  "mockNvidiaBmmClient instanceID =
     \<lparr>CreateInstanceWithResponse = (\<lambda>org body.
        Inr \<lparr>JSON201 = Some \<lparr>inst_Id = Some instanceID, inst_MachineId = None,
                               inst_Status = None, inst_Interfaces = None\<rparr>,
             create_StatusCode = 201\<rparr>),
      GetInstanceWithResponse = (\<lambda>org instanceId.
        Inr \<lparr>JSON200 = Some \<lparr>inst_Id = Some instanceId, inst_MachineId = None,
                               inst_Status = None, inst_Interfaces = None\<rparr>,
             get_StatusCode = 200\<rparr>),
      DeleteInstanceWithResponse = (\<lambda>org instanceId. Inr \<lparr>delete_StatusCode = 204\<rparr>)\<rparr>"

text \<open>\<^verbatim>\<open>createTestMachine\<close>: an unstructured object with a name and the provider spec.\<close>

definition createTestMachine :: "string \<Rightarrow> NvidiaBMMMachineProviderSpec \<Rightarrow> Machine" where
  "createTestMachine name providerSpec =
     \<lparr>objKind = UnstructuredObject, objName = name, finalizers = [],
      m_spec = Obj \<lparr>providerSpec_value = Present providerSpec, providerID = None\<rparr>,
      m_status = Absent\<rparr>"

text \<open>The provider spec and the credentials secret of the integration test.\<close>

definition testProviderSpec :: NvidiaBMMMachineProviderSpec where
  "testProviderSpec =
     \<lparr>SiteID = ''8a880c71-fe4b-4e43-9e24-ebfcb8a84c5f'',
      TenantID = ''b013708a-99f0-47b2-a630-cabb4ae1d3df'',
      VpcID = ''9bb2d7d0-a017-4018-a212-a3d6b38e4ec9'',
      SubnetID = ''63e3909a-dfae-4b8e-8090-3269c5d2a2da'',
      AdditionalSubnetIDs = [], InstanceTypeID = '''', MachineID = '''',
      AllowUnhealthyMachine = False, UserData = '''', SSHKeyGroupIDs = [], Labels = [],
      CredentialsSecret = \<lparr>secret_Name = ''nvidia-bmm-creds'', secret_Namespace = ''default''\<rparr>\<rparr>"

definition testMachine :: Machine where
  "testMachine = createTestMachine ''test-machine'' testProviderSpec"

text \<open>
  A resource store that holds the credentials secret of the tests and accepts every
  write, and one that refuses every write.
\<close>

definition testStore :: k8sClient where
  "testStore =
     \<lparr>Get = (\<lambda>name namespace.
        if name = ''nvidia-bmm-creds'' \<and> namespace = ''default''
        then Inr [''endpoint'' \<mapsto> ''https://api.nvidia-bmm.test'', ''orgName'' \<mapsto> ''test-org'',
                  ''token'' \<mapsto> ''test-token'']
        else Inl (External ''not found'')),
      Status_Update = (\<lambda>obj. None),
      Update_object = (\<lambda>obj. None)\<rparr>"

definition refusingStore :: k8sClient where
  "refusingStore =
     testStore\<lparr>Status_Update := (\<lambda>obj. Some (External ''conflict'')),
               Update_object := (\<lambda>obj. Some (External ''conflict''))\<rparr>"

definition uuid1 :: UUID where
  "uuid1 = UUID 0x55 0x0e 0x84 0x00 0xe2 0x9b 0x41 0xd4 0xa7 0x16 0x44 0x66 0x55 0x44 0x00 0x00"

definition uuid2 :: UUID where
  "uuid2 = UUID 0x66 0x0e 0x84 0x00 0xe2 0x9b 0x41 0xd4 0xa7 0x16 0x44 0x66 0x55 0x44 0x00 0x01"

text \<open>The actuator of the integration test, and a client constructor that is never used.\<close>

definition testActuator :: "UUID \<Rightarrow> Actuator" where
  "testActuator instanceID =
     NewActuatorWithClient testStore False (mockNvidiaBmmClient instanceID) ''test-org''"

definition noClientFactory :: clientFactory where
  "noClientFactory endpoint token = Inl (External ''no network'')"

text \<open>The request that \<open>buildInstanceRequest\<close> makes of the test's provider spec.\<close>

definition testRequest :: CreateInstanceJSONRequestBody where
  "testRequest =
     \<lparr>req_Name = ''test-machine'',
      req_TenantId =
        UUID 0xb0 0x13 0x70 0x8a 0x99 0xf0 0x47 0xb2 0xa6 0x30 0xca 0xbb 0x4a 0xe1 0xd3 0xdf,
      req_VpcId =
        UUID 0x9b 0xb2 0xd7 0xd0 0xa0 0x17 0x40 0x18 0xa2 0x12 0xa3 0xd6 0xb3 0x8e 0x4e 0xc9,
      req_Interfaces = Some
        [\<lparr>SubnetId = Some
            (UUID 0x63 0xe3 0x90 0x9a 0xdf 0xae 0x4b 0x8e 0x80 0x90 0x32 0x69 0xc5 0xd2 0xa2 0xda),
          IsPhysical = Some False\<rparr>],
      req_PhoneHomeEnabled = Some True, req_InstanceTypeId = None, req_MachineId = None,
      req_AllowUnhealthyMachine = None, req_UserData = None, req_SshKeyGroupIds = None,
      req_Labels = None\<rparr>"

text \<open>
  The mock with one function overridden, as the test's \<^verbatim>\<open>...Func\<close> fields allow: a get
  that fails, a platform that answers without payload (create 500, get 404, delete 500),
  a delete that answers 404, and a platform that reports a full instance.
\<close>

definition failingGetClient :: "UUID \<Rightarrow> NvidiaBMMClientInterface" where
  "failingGetClient instanceID =
     (mockNvidiaBmmClient instanceID)
       \<lparr>GetInstanceWithResponse := (\<lambda>org instanceId. Inl (External ''connection refused''))\<rparr>"

definition noDataClient :: NvidiaBMMClientInterface where
  "noDataClient =
     \<lparr>CreateInstanceWithResponse = (\<lambda>org body. Inr \<lparr>JSON201 = None, create_StatusCode = 500\<rparr>),
      GetInstanceWithResponse = (\<lambda>org instanceId. Inr \<lparr>JSON200 = None, get_StatusCode = 404\<rparr>),
      DeleteInstanceWithResponse = (\<lambda>org instanceId. Inr \<lparr>delete_StatusCode = 500\<rparr>)\<rparr>"

definition goneClient :: "UUID \<Rightarrow> NvidiaBMMClientInterface" where
  "goneClient instanceID =
     (mockNvidiaBmmClient instanceID)
       \<lparr>DeleteInstanceWithResponse := (\<lambda>org instanceId. Inr \<lparr>delete_StatusCode = 404\<rparr>)\<rparr>"

definition fullInstance :: "UUID \<Rightarrow> Instance" where
  "fullInstance instanceID =
     \<lparr>inst_Id = Some instanceID, inst_MachineId = Some ''machine-7'',
      inst_Status = Some ''Ready'',
      inst_Interfaces = Some
        [\<lparr>IpAddresses = Some [''10.0.0.5'', ''10.0.0.6'']\<rparr>, \<lparr>IpAddresses = None\<rparr>,
         \<lparr>IpAddresses = Some [''192.168.1.9'']\<rparr>]\<rparr>"

definition fullClient :: "UUID \<Rightarrow> NvidiaBMMClientInterface" where
  "fullClient instanceID =
     \<lparr>CreateInstanceWithResponse = (\<lambda>org body.
        Inr \<lparr>JSON201 = Some (fullInstance instanceID), create_StatusCode = 201\<rparr>),
      GetInstanceWithResponse = (\<lambda>org instanceId.
        Inr \<lparr>JSON200 = Some (fullInstance instanceId), get_StatusCode = 200\<rparr>),
      DeleteInstanceWithResponse = (\<lambda>org instanceId. Inr \<lparr>delete_StatusCode = 204\<rparr>)\<rparr>"

text \<open>
  The test machine as a Create that received \<open>fullInstance\<close> leaves it, the same
  machine with only the instance id recorded, and the test machine without a provider
  spec.
\<close>

definition fullStatus :: "UUID \<Rightarrow> NvidiaBMMMachineProviderStatus" where
  "fullStatus instanceID =
     \<lparr>st_InstanceID = Some (uuid_String instanceID), st_MachineID = Some ''machine-7'',
      st_InstanceState = Some ''Ready'',
      st_Addresses =
        [\<lparr>addr_Type = ''InternalIP'', addr_Address = ''10.0.0.5''\<rparr>,
         \<lparr>addr_Type = ''InternalIP'', addr_Address = ''10.0.0.6''\<rparr>,
         \<lparr>addr_Type = ''InternalIP'', addr_Address = ''192.168.1.9''\<rparr>],
      st_Conditions = []\<rparr>"

definition testProviderIDString :: "UUID \<Rightarrow> string" where
  "testProviderIDString instanceID =
     ''nvidia-bmm://test-org/b013708a-99f0-47b2-a630-cabb4ae1d3df/'' @
     ''8a880c71-fe4b-4e43-9e24-ebfcb8a84c5f/'' @ uuid_String instanceID"

definition provisionedMachine :: "NvidiaBMMMachineProviderStatus \<Rightarrow> UUID \<Rightarrow> Machine" where
  "provisionedMachine providerStatus instanceID =
     testMachine
       \<lparr>m_spec := Obj \<lparr>providerSpec_value = Present testProviderSpec,
                         providerID = Some (testProviderIDString instanceID)\<rparr>,
        m_status := Obj (Present providerStatus)\<rparr>"

definition createdMachine :: "UUID \<Rightarrow> Machine" where
  "createdMachine instanceID =
     provisionedMachine (emptyStatus\<lparr>st_InstanceID := Some (uuid_String instanceID)\<rparr>) instanceID"

definition brokenMachine :: Machine where
  "brokenMachine = testMachine\<lparr>m_spec := Obj \<lparr>providerSpec_value = Missing, providerID = None\<rparr>\<rparr>"

section \<open>Properties of the UUID library model\<close>

lemma and_15: "(n::byte) AND 15 = take_bit 4 n"
proof -
  have "(15::byte) = mask 4" by (simp add: mask_eq_decr_exp)
  then show ?thesis by (simp add: take_bit_eq_mask)
qed

lemma nib_lt: "unat ((n::byte) AND 15) < 16"
proof -
  have "n AND 15 \<le> 15" by (rule word_and_le1)
  then show ?thesis by (simp add: word_le_nat_alt)
qed

lemma hextable_nth:
  assumes "k < 16"
  shows "xvalue (hextable ! k) = of_nat k \<and> hextable ! k \<noteq> CHR ''/''"
proof -
  from assms have "k = 0 \<or> k = 1 \<or> k = 2 \<or> k = 3 \<or> k = 4 \<or> k = 5 \<or> k = 6 \<or> k = 7 \<or>
      k = 8 \<or> k = 9 \<or> k = 10 \<or> k = 11 \<or> k = 12 \<or> k = 13 \<or> k = 14 \<or> k = 15"
    by arith
  then show ?thesis
    by (elim disjE) (simp_all add: hextable_def xvalue_def)
qed

lemma xvalue_hexdigit: "xvalue (hexdigit n) = n AND 15"
  using hextable_nth [OF nib_lt, of n] by (simp add: hexdigit_def)

lemma hexdigit_not_slash: "hexdigit n \<noteq> CHR ''/''"
  using hextable_nth [OF nib_lt, of n] by (simp add: hexdigit_def)

lemma nib_ne_255: "(n::byte) AND 15 \<noteq> 255"
proof
  assume "n AND 15 = 255"
  then have "unat (n AND 15) = 255" by simp
  with nib_lt [of n] show False by simp
qed

lemma byte_join: "push_bit 4 (drop_bit 4 (b::byte) AND 15) OR (b AND 15) = b"
  unfolding and_15
  by (rule bit_word_eqI) (auto simp: bit_simps)

lemma xtob_hexbyte: "xtob (hexdigit (drop_bit 4 b)) (hexdigit b) = Some b"
proof -
  have "xvalue (hexdigit (drop_bit 4 b)) \<noteq> 255" "xvalue (hexdigit b) \<noteq> 255"
    by (simp_all only: xvalue_hexdigit nib_ne_255 not_False_eq_True)
  moreover have
    "push_bit 4 (xvalue (hexdigit (drop_bit 4 b))) OR xvalue (hexdigit b) = b"
    by (simp only: xvalue_hexdigit byte_join)
  ultimately show ?thesis
    by (simp only: xtob_def Let_def simp_thms if_True)
qed

lemma uuid_String_length: "length (uuid_String u) = 36"
  by (cases u) (simp add: hexbyte_def)

lemma uuid_String_no_slash: "CHR ''/'' \<notin> set (uuid_String u)"
  by (cases u) (simp add: hexbyte_def hexdigit_not_slash [THEN not_sym])

lemma parse_dashed_String: "parse_dashed (uuid_String u) = Some u"
  by (cases u) (simp add: hexbyte_def parse_dashed_def dashed_positions_def xtob_hexbyte)

text \<open>Every UUID is read back from its canonical string.\<close>

lemma uuid_Parse_String: "uuid_Parse (uuid_String u) = Some u"
  by (simp add: uuid_Parse_def uuid_String_length parse_dashed_String)

lemmas uuid_eval =
  uuid_Parse_def parse_dashed_def dashed_positions_def plain_positions_def xtob_def
  xvalue_def hexbyte_def hexdigit_def hextable_def

section \<open>Properties of splitting\<close>

lemma Split_not_Nil: "Split s c \<noteq> []"
  by (induction s) (auto split: list.splits)

lemma Split_no_sep: "c \<notin> set a \<Longrightarrow> Split a c = [a]"
  by (induction a) auto

lemma Split_append: "c \<notin> set a \<Longrightarrow> Split (a @ c # rest) c = a # Split rest c"
  by (induction a) auto

text \<open>The number of pieces is the number of separators plus one.\<close>

lemma length_Split: "length (Split s c) = Suc (count_list s c)"
  by (induction s) (auto simp: Split_not_Nil split: list.splits)

lemma HasPrefix_iff: "HasPrefix s pre \<longleftrightarrow> prefix pre s"
  by (auto simp: HasPrefix_def prefix_def) (metis append_take_drop_id)

lemma HasPrefix_append: "HasPrefix (pre @ r) pre"
  by (simp add: HasPrefix_def)

lemma TrimPrefix_append: "TrimPrefix (pre @ r) pre = r"
  by (simp add: TrimPrefix_def HasPrefix_def)

lemma Split4:
  assumes "c \<notin> set a" "c \<notin> set b" "c \<notin> set d" "c \<notin> set e"
  shows "Split (a @ [c] @ b @ [c] @ d @ [c] @ e) c = [a, b, d, e]"
  using assms by (simp add: Split_append Split_no_sep)

lemma Split3:
  assumes "c \<notin> set a" "c \<notin> set b" "c \<notin> set d"
  shows "Split (a @ [c] @ b @ [c] @ d) c = [a, b, d]"
  using assms by (simp add: Split_append Split_no_sep)

section \<open>Properties of the document helpers\<close>

lemma getProviderStatus_kind:
  "getProviderStatus machine = Inr st \<Longrightarrow> objKind machine = UnstructuredObject"
  by (auto simp: getProviderStatus_def split: if_splits)

lemma getProviderSpec_kind:
  "getProviderSpec machine = Inr ps \<Longrightarrow> objKind machine = UnstructuredObject"
  by (auto simp: getProviderSpec_def split: if_splits)

text \<open>The provider spec is read exactly from an unstructured object whose value decodes.\<close>

lemma getProviderSpec_Inr_iff:
  "getProviderSpec machine = Inr ps \<longleftrightarrow>
     objKind machine = UnstructuredObject \<and>
     (\<exists>specMap. m_spec machine = Obj specMap \<and> providerSpec_value specMap = Present ps)"
  by (auto simp: getProviderSpec_def split: node.splits field.splits)

lemma instanceAddresses_tagged:
  "ad \<in> set (instanceAddresses inst) \<Longrightarrow> addr_Type ad = ''InternalIP''"
  by (auto simp: instanceAddresses_def split: option.splits)

lemma instanceAddresses_complete:
  "inst_Interfaces inst = Some ifaces \<Longrightarrow> iface \<in> set ifaces \<Longrightarrow>
   IpAddresses iface = Some ipAddrs \<Longrightarrow> ipAddr \<in> set ipAddrs \<Longrightarrow>
   \<lparr>addr_Type = ''InternalIP'', addr_Address = ipAddr\<rparr> \<in> set (instanceAddresses inst)"
  by (force simp: instanceAddresses_def)

lemma instanceAddresses_sound:
  "ad \<in> set (instanceAddresses inst) \<Longrightarrow>
   \<exists>ifaces iface ipAddrs. inst_Interfaces inst = Some ifaces \<and> iface \<in> set ifaces \<and>
     IpAddresses iface = Some ipAddrs \<and> addr_Address ad \<in> set ipAddrs"
  by (auto simp: instanceAddresses_def split: option.splits) metis

text \<open>
  The address list holds exactly the addresses of the interfaces of the payload, each
  tagged \<open>InternalIP\<close>.
\<close>

lemma set_instanceAddresses:
  "set (instanceAddresses inst) =
     {\<lparr>addr_Type = ''InternalIP'', addr_Address = ipAddr\<rparr> | ipAddr ifaces iface ipAddrs.
        inst_Interfaces inst = Some ifaces \<and> iface \<in> set ifaces \<and>
        IpAddresses iface = Some ipAddrs \<and> ipAddr \<in> set ipAddrs}"
  (is "?L = ?R")
proof
  show "?L \<subseteq> ?R"
  proof
    fix ad assume ad: "ad \<in> ?L"
    from instanceAddresses_sound [OF ad] obtain ifaces iface ipAddrs where
      h: "inst_Interfaces inst = Some ifaces" "iface \<in> set ifaces"
         "IpAddresses iface = Some ipAddrs" "addr_Address ad \<in> set ipAddrs"
      by blast
    have "ad = \<lparr>addr_Type = ''InternalIP'', addr_Address = addr_Address ad\<rparr>"
      using instanceAddresses_tagged [OF ad] by simp
    with h show "ad \<in> ?R" by blast
  qed
  show "?R \<subseteq> ?L"
    using instanceAddresses_complete by blast
qed

lemma setProviderStatus_spec:
  "setProviderStatus a machine st = (e, machine', w) \<Longrightarrow> m_spec machine' = m_spec machine"
  by (auto simp: setProviderStatus_def Let_def split: option.splits if_splits)

text \<open>Update never touches the spec subtree.\<close>

lemma Update_spec: "m_spec (fst (snd (Update nc a machine))) = m_spec machine"
  by (auto simp: Update_def Let_def dest: setProviderStatus_spec
      split: sum.splits option.splits prod.splits)

lemma apply_operation_spec:
  "fst step \<noteq> OpCreate \<Longrightarrow> m_spec (apply_operation step machine) = m_spec machine"
  by (cases step; cases "fst step") (auto simp: Update_spec)

lemma run_operations_spec:
  "\<forall>step\<in>set steps. fst step \<noteq> OpCreate \<Longrightarrow>
   m_spec (run_operations steps machine) = m_spec machine"
  by (induction steps arbitrary: machine) (simp_all add: apply_operation_spec)

section \<open>The fixtures evaluated\<close>

lemma buildInstanceRequest_test:
  "buildInstanceRequest ''test-machine'' testProviderSpec = Inr testRequest"
  by (simp add: buildInstanceRequest_def testProviderSpec_def testRequest_def uuid_eval)

lemma uuid_String_uuid1: "uuid_String uuid1 = ''550e8400-e29b-41d4-a716-446655440000''"
  by (simp add: uuid1_def hexbyte_def hexdigit_def hextable_def)

lemma uuid_String_uuid2: "uuid_String uuid2 = ''660e8400-e29b-41d4-a716-446655440001''"
  by (simp add: uuid2_def hexbyte_def hexdigit_def hextable_def)

lemma uuid_Parse_uuid1: "uuid_Parse ''550e8400-e29b-41d4-a716-446655440000'' = Some uuid1"
  using uuid_Parse_String [of uuid1] by (simp only: uuid_String_uuid1)

lemma uuid_Parse_uuid2: "uuid_Parse ''660e8400-e29b-41d4-a716-446655440001'' = Some uuid2"
  using uuid_Parse_String [of uuid2] by (simp only: uuid_String_uuid2)

lemmas fixture_defs =
  testMachine_def createTestMachine_def testActuator_def NewActuatorWithClient_def
  NewActuator_def mockNvidiaBmmClient_def testStore_def refusingStore_def
  failingGetClient_def noDataClient_def goneClient_def fullClient_def fullInstance_def
  fullStatus_def provisionedMachine_def createdMachine_def brokenMachine_def
  testProviderIDString_def emptyStatus_def noClientFactory_def

lemma objName_testMachine: "objName testMachine = ''test-machine''"
  by (simp add: fixture_defs)

lemma getProviderSpec_provisioned:
  "getProviderSpec (provisionedMachine st u) = Inr testProviderSpec"
  by (simp add: getProviderSpec_def fixture_defs)

lemma getProviderSpec_testMachine: "getProviderSpec testMachine = Inr testProviderSpec"
  by (simp add: getProviderSpec_def fixture_defs)

lemma getProviderStatus_provisioned: "getProviderStatus (provisionedMachine st u) = Inr st"
  by (simp add: getProviderStatus_def fixture_defs)

lemma getProviderStatus_testMachine: "getProviderStatus testMachine = Inr emptyStatus"
  by (simp add: getProviderStatus_def fixture_defs)

lemma getNvidiaBmmClient_injected:
  "getNvidiaBmmClient nc (NewActuatorWithClient k8s recorder bmmClient org) providerSpec =
     Inr (bmmClient, org)"
  by (simp add: getNvidiaBmmClient_def NewActuatorWithClient_def)

lemma getNvidiaBmmClient_secret:
  "getNvidiaBmmClient (\<lambda>endpoint token. Inr bmmClient) (NewActuator testStore recorder)
     testProviderSpec = Inr (bmmClient, ''test-org'')"
  by (simp add: getNvidiaBmmClient_def NewActuator_def testStore_def testProviderSpec_def)

lemma recordEvent_NewActuatorWithClient:
  "recordEvent (NewActuatorWithClient k8s recorder bmmClient org) eventtype reason =
     (if recorder then [Eventf eventtype reason] else [])"
  by (simp add: recordEvent_def NewActuatorWithClient_def)

lemma recordEvent_NewActuator:
  "recordEvent (NewActuator k8s recorder) eventtype reason =
     (if recorder then [Eventf eventtype reason] else [])"
  by (simp add: recordEvent_def NewActuator_def)

text \<open>The evaluation of Create with the mock of the tests, on a fresh and on a created machine.\<close>

lemma Create_testMachine:
  "Create noClientFactory (NewActuatorWithClient testStore False (mockNvidiaBmmClient u) ''test-org'')
     testMachine =
     (None, createdMachine u,
      [CreateInstanceCall ''test-org'' testRequest,
       StatusUpdateCall (testMachine\<lparr>m_status :=
          Obj (Present (emptyStatus\<lparr>st_InstanceID := Some (uuid_String u)\<rparr>))\<rparr>),
       UpdateCall (createdMachine u)])"
  using buildInstanceRequest_test
  by (simp add: Create_def getProviderSpec_def getNvidiaBmmClient_def
      NewActuatorWithClient_def mockNvidiaBmmClient_def testStore_def Let_def
      setProviderStatus_def setProviderID_def recordEvent_def instanceAddresses_def
      String_def NewProviderID_def ProviderPrefix_def createdMachine_def
      provisionedMachine_def testProviderIDString_def emptyStatus_def testMachine_def
      createTestMachine_def)
    (simp add: testProviderSpec_def)

lemma Create_createdMachine:
  "Create noClientFactory (NewActuatorWithClient testStore False (failingGetClient u) ''test-org'')
     (createdMachine u') =
     (None, createdMachine u,
      [CreateInstanceCall ''test-org'' testRequest,
       StatusUpdateCall (createdMachine u'\<lparr>m_status :=
          Obj (Present (emptyStatus\<lparr>st_InstanceID := Some (uuid_String u)\<rparr>))\<rparr>),
       UpdateCall (createdMachine u)])"
  using buildInstanceRequest_test
  by (simp add: Create_def getProviderSpec_def getNvidiaBmmClient_def
      NewActuatorWithClient_def failingGetClient_def mockNvidiaBmmClient_def testStore_def
      Let_def setProviderStatus_def setProviderID_def recordEvent_def instanceAddresses_def
      String_def NewProviderID_def ProviderPrefix_def createdMachine_def
      provisionedMachine_def testProviderIDString_def emptyStatus_def testMachine_def
      createTestMachine_def)
    (simp add: testProviderSpec_def)

lemma providerID_of_createdMachine:
  "providerID_of (createdMachine u) = Some (testProviderIDString u)"
  by (simp add: providerID_of_def createdMachine_def provisionedMachine_def)

section \<open>The provider-identity codec\<close>

lemma ParseProviderID_four:
  assumes "CHR ''/'' \<notin> set org" "CHR ''/'' \<notin> set tenant" "CHR ''/'' \<notin> set site"
    "CHR ''/'' \<notin> set ustr" and "uuid_Parse ustr = Some u"
  shows "ParseProviderID (ProviderPrefix @ org @ ''/'' @ tenant @ ''/'' @ site @ ''/'' @ ustr) =
           Inr \<lparr>OrgName = org, TenantName = tenant, SiteName = site, InstanceID = u\<rparr>"
proof -
  have parts: "Split (org @ ''/'' @ tenant @ ''/'' @ site @ ''/'' @ ustr) CHR ''/'' =
      [org, tenant, site, ustr]"
    using Split4 [OF assms(1-4)] by simp
  show ?thesis
    unfolding ParseProviderID_def
    by (simp only: HasPrefix_append TrimPrefix_append parts Let_def) (simp add: assms(5))
qed

lemma ParseProviderID_three:
  assumes "CHR ''/'' \<notin> set org" "CHR ''/'' \<notin> set site" "CHR ''/'' \<notin> set ustr"
    and "uuid_Parse ustr = Some u"
  shows "ParseProviderID (ProviderPrefix @ org @ ''/'' @ site @ ''/'' @ ustr) =
           Inr \<lparr>OrgName = org, TenantName = '''', SiteName = site, InstanceID = u\<rparr>"
proof -
  have parts: "Split (org @ ''/'' @ site @ ''/'' @ ustr) CHR ''/'' = [org, site, ustr]"
    using Split3 [OF assms(1-3)] by simp
  show ?thesis
    unfolding ParseProviderID_def
    by (simp only: HasPrefix_append TrimPrefix_append parts Let_def) (simp add: assms(4))
qed

text \<open>
  Claim C3 (round trip). For all org, tenant and site strings without \<open>/\<close> and every
  UUID \<open>i\<close>, parsing the string form of \<open>NewProviderID org tenant site i\<close> succeeds and
  returns the four components unchanged.
\<close>

theorem ParseProviderID_String_roundtrip:
  assumes "CHR ''/'' \<notin> set org" "CHR ''/'' \<notin> set tenant" "CHR ''/'' \<notin> set site"
  shows "ParseProviderID (String (NewProviderID org tenant site i)) =
           Inr (NewProviderID org tenant site i)"
  using ParseProviderID_four [OF assms uuid_String_no_slash uuid_Parse_String, of i]
  by (simp add: String_def NewProviderID_def)

theorem ParseProviderID_String_roundtrip_witness:
  "CHR ''/'' \<notin> set ''test-org'' \<and> CHR ''/'' \<notin> set ''test-tenant'' \<and>
   CHR ''/'' \<notin> set ''test-site'' \<and>
   String (NewProviderID ''test-org'' ''test-tenant'' ''test-site''
     (UUID 0x55 0x0e 0x84 0 0xe2 0x9b 0x41 0xd4 0xa7 0x16 0x44 0x66 0x55 0x44 0 0)) =
     ''nvidia-bmm://test-org/test-tenant/test-site/550e8400-e29b-41d4-a716-446655440000'' \<and>
   ParseProviderID
     ''nvidia-bmm://test-org/test-tenant/test-site/550e8400-e29b-41d4-a716-446655440000'' =
     Inr \<lparr>OrgName = ''test-org'', TenantName = ''test-tenant'', SiteName = ''test-site'',
          InstanceID =
            UUID 0x55 0x0e 0x84 0 0xe2 0x9b 0x41 0xd4 0xa7 0x16 0x44 0x66 0x55 0x44 0 0\<rparr>"
proof -
  let ?u = "UUID 0x55 0x0e 0x84 0 0xe2 0x9b 0x41 0xd4 0xa7 0x16 0x44 0x66 0x55 0x44 0 0"
  have str: "String (NewProviderID ''test-org'' ''test-tenant'' ''test-site'' ?u) =
      ''nvidia-bmm://test-org/test-tenant/test-site/550e8400-e29b-41d4-a716-446655440000''"
    by (simp add: String_def NewProviderID_def ProviderPrefix_def hexbyte_def hexdigit_def
        hextable_def)
  have h: "CHR ''/'' \<notin> set ''test-org''" "CHR ''/'' \<notin> set ''test-tenant''"
    "CHR ''/'' \<notin> set ''test-site''"
    by simp_all
  from ParseProviderID_String_roundtrip [OF h, of ?u] str h show ?thesis
    by (simp add: NewProviderID_def)
qed

text \<open>
  Claim C9 (legacy form). For every input \<open>nvidia-bmm://org/site/uuid\<close> of three
  segments (none of them contains \<open>/\<close>) whose last segment \<open>uuid.Parse\<close> accepts,
  \<open>ParseProviderID\<close> succeeds with the empty tenant, org and site the first two segments
  and the instance id the UUID parsed from the third.
\<close>

theorem ParseProviderID_legacy:
  assumes "CHR ''/'' \<notin> set org" "CHR ''/'' \<notin> set site" "CHR ''/'' \<notin> set ustr"
    and "uuid_Parse ustr = Some u"
  shows "ParseProviderID (ProviderPrefix @ org @ ''/'' @ site @ ''/'' @ ustr) =
           Inr \<lparr>OrgName = org, TenantName = '''', SiteName = site, InstanceID = u\<rparr>"
  using assms by (rule ParseProviderID_three)

theorem ParseProviderID_legacy_witness:
  "CHR ''/'' \<notin> set ''acme'' \<and> CHR ''/'' \<notin> set ''site1'' \<and>
   CHR ''/'' \<notin> set ''550e8400-e29b-41d4-a716-446655440000'' \<and>
   uuid_Parse ''550e8400-e29b-41d4-a716-446655440000'' =
     Some (UUID 0x55 0x0e 0x84 0 0xe2 0x9b 0x41 0xd4 0xa7 0x16 0x44 0x66 0x55 0x44 0 0) \<and>
   ParseProviderID ''nvidia-bmm://acme/site1/550e8400-e29b-41d4-a716-446655440000'' =
     Inr \<lparr>OrgName = ''acme'', TenantName = '''', SiteName = ''site1'',
          InstanceID =
            UUID 0x55 0x0e 0x84 0 0xe2 0x9b 0x41 0xd4 0xa7 0x16 0x44 0x66 0x55 0x44 0 0\<rparr>"
proof -
  let ?u = "UUID 0x55 0x0e 0x84 0 0xe2 0x9b 0x41 0xd4 0xa7 0x16 0x44 0x66 0x55 0x44 0 0"
  have h: "CHR ''/'' \<notin> set ''acme''" "CHR ''/'' \<notin> set ''site1''"
    "CHR ''/'' \<notin> set ''550e8400-e29b-41d4-a716-446655440000''"
    by simp_all
  have p: "uuid_Parse ''550e8400-e29b-41d4-a716-446655440000'' = Some ?u"
    by (simp add: uuid_eval)
  from ParseProviderID_legacy [OF h p] h p show ?thesis
    by (simp add: ProviderPrefix_def)
qed

text \<open>
  Claim C8 (failure cases of the decoder). With \<open>rest\<close> the input after the scheme
  prefix and its segments the pieces of \<open>rest\<close> between \<open>/\<close> (one more than the
  number of \<open>/\<close> in \<open>rest\<close>), \<open>ParseProviderID\<close>
  \<^item> fails with the prefix error when the input does not start with \<open>nvidia-bmm://\<close>;
  \<^item> otherwise fails with the segment-count error when the number of segments is neither
    3 nor 4 (so 1, 2, 5 or more segments are rejected);
  \<^item> otherwise fails with the instance-id error when \<open>uuid.Parse\<close> rejects the last
    segment;
  \<^item> otherwise succeeds, with org the first segment, site the segment before the last,
    tenant the second of four segments (empty for three), and the parsed UUID; no other
    check is made, so empty org, tenant and site segments are accepted.
  The four cases are exclusive and cover every input.
\<close>

theorem ParseProviderID_failure_cases:
  "(\<not> prefix ProviderPrefix s \<longrightarrow>
      ParseProviderID s = Inl (Errorf ''invalid provider ID prefix'')) \<and>
   (prefix ProviderPrefix s \<and>
    Suc (count_list (drop (length ProviderPrefix) s) CHR ''/'') \<notin> {3, 4} \<longrightarrow>
      ParseProviderID s =
        Inl (Errorf ''invalid provider ID format, expected 3 or 4 segments'')) \<and>
   (prefix ProviderPrefix s \<and>
    Suc (count_list (drop (length ProviderPrefix) s) CHR ''/'') \<in> {3, 4} \<and>
    uuid_Parse (last (Split (drop (length ProviderPrefix) s) CHR ''/'')) = None \<longrightarrow>
      ParseProviderID s = Inl (Errorf_w ''invalid instance ID'' (External ''uuid''))) \<and>
   (\<forall>u. prefix ProviderPrefix s \<and>
    Suc (count_list (drop (length ProviderPrefix) s) CHR ''/'') \<in> {3, 4} \<and>
    uuid_Parse (last (Split (drop (length ProviderPrefix) s) CHR ''/'')) = Some u \<longrightarrow>
      ParseProviderID s =
        Inr \<lparr>OrgName = hd (Split (drop (length ProviderPrefix) s) CHR ''/''),
             TenantName =
               (if count_list (drop (length ProviderPrefix) s) CHR ''/'' = 3
                then Split (drop (length ProviderPrefix) s) CHR ''/'' ! 1 else ''''),
             SiteName = last (butlast (Split (drop (length ProviderPrefix) s) CHR ''/'')),
             InstanceID = u\<rparr>) \<and>
   (\<forall>u. ParseProviderID (ProviderPrefix @ ''///'' @ uuid_String u) =
      Inr \<lparr>OrgName = '''', TenantName = '''', SiteName = '''', InstanceID = u\<rparr>)"
proof -
  let ?rest = "drop (length ProviderPrefix) s"
  let ?parts = "Split ?rest CHR ''/''"
  have len: "length ?parts = Suc (count_list ?rest CHR ''/'')"
    by (rule length_Split)
  have trim: "prefix ProviderPrefix s \<Longrightarrow> TrimPrefix s ProviderPrefix = ?rest"
    by (simp add: TrimPrefix_def HasPrefix_iff)
  have three: "length ?parts = 3 \<Longrightarrow>
      hd ?parts = ?parts ! 0 \<and> last ?parts = ?parts ! 2 \<and> last (butlast ?parts) = ?parts ! 1"
    by (auto simp: length_Suc_conv eval_nat_numeral)
  have four: "length ?parts = 4 \<Longrightarrow>
      hd ?parts = ?parts ! 0 \<and> last ?parts = ?parts ! 3 \<and> last (butlast ?parts) = ?parts ! 2"
    by (auto simp: length_Suc_conv eval_nat_numeral)
  have c1: "\<not> prefix ProviderPrefix s \<longrightarrow>
      ParseProviderID s = Inl (Errorf ''invalid provider ID prefix'')"
    by (simp add: ParseProviderID_def HasPrefix_iff)
  have c2: "prefix ProviderPrefix s \<and> Suc (count_list ?rest CHR ''/'') \<notin> {3, 4} \<longrightarrow>
      ParseProviderID s =
        Inl (Errorf ''invalid provider ID format, expected 3 or 4 segments'')"
    using len by (auto simp: ParseProviderID_def HasPrefix_iff trim Let_def)
  have c3: "prefix ProviderPrefix s \<and> Suc (count_list ?rest CHR ''/'') \<in> {3, 4} \<and>
      uuid_Parse (last ?parts) = None \<longrightarrow>
      ParseProviderID s = Inl (Errorf_w ''invalid instance ID'' (External ''uuid''))"
    using len three four by (auto simp: ParseProviderID_def HasPrefix_iff trim Let_def)
  have c4: "\<forall>u. prefix ProviderPrefix s \<and> Suc (count_list ?rest CHR ''/'') \<in> {3, 4} \<and>
      uuid_Parse (last ?parts) = Some u \<longrightarrow>
      ParseProviderID s =
        Inr \<lparr>OrgName = hd ?parts,
             TenantName = (if count_list ?rest CHR ''/'' = 3 then ?parts ! 1 else ''''),
             SiteName = last (butlast ?parts), InstanceID = u\<rparr>"
    using len three four by (auto simp: ParseProviderID_def HasPrefix_iff trim Let_def)
  have c5: "\<forall>u. ParseProviderID (ProviderPrefix @ ''///'' @ uuid_String u) =
      Inr \<lparr>OrgName = '''', TenantName = '''', SiteName = '''', InstanceID = u\<rparr>"
  proof
    fix u
    have e: "CHR ''/'' \<notin> set ''''" by simp
    from ParseProviderID_four [OF e e e uuid_String_no_slash uuid_Parse_String, of u]
    show "ParseProviderID (ProviderPrefix @ ''///'' @ uuid_String u) =
      Inr \<lparr>OrgName = '''', TenantName = '''', SiteName = '''', InstanceID = u\<rparr>"
      by simp
  qed
  from c1 c2 c3 c4 c5 show ?thesis by blast
qed

theorem ParseProviderID_failure_cases_witness:
  "ParseProviderID ''nvidia-bmm:/acme/site1/550e8400-e29b-41d4-a716-446655440000'' =
     Inl (Errorf ''invalid provider ID prefix'') \<and>
   ParseProviderID ''nvidia-bmm://acme/550e8400-e29b-41d4-a716-446655440000'' =
     Inl (Errorf ''invalid provider ID format, expected 3 or 4 segments'') \<and>
   ParseProviderID ''nvidia-bmm://a/b/c/d/550e8400-e29b-41d4-a716-446655440000'' =
     Inl (Errorf ''invalid provider ID format, expected 3 or 4 segments'') \<and>
   ParseProviderID ''nvidia-bmm://acme/tenant1/site1/not-a-uuid'' =
     Inl (Errorf_w ''invalid instance ID'' (External ''uuid'')) \<and>
   ParseProviderID ''nvidia-bmm://acme//site1/550e8400-e29b-41d4-a716-446655440000'' =
     Inr \<lparr>OrgName = ''acme'', TenantName = '''', SiteName = ''site1'',
          InstanceID =
            UUID 0x55 0x0e 0x84 0 0xe2 0x9b 0x41 0xd4 0xa7 0x16 0x44 0x66 0x55 0x44 0 0\<rparr>"
  using
    ParseProviderID_failure_cases
      [of "''nvidia-bmm:/acme/site1/550e8400-e29b-41d4-a716-446655440000''"]
    ParseProviderID_failure_cases
      [of "''nvidia-bmm://acme/550e8400-e29b-41d4-a716-446655440000''"]
    ParseProviderID_failure_cases
      [of "''nvidia-bmm://a/b/c/d/550e8400-e29b-41d4-a716-446655440000''"]
    ParseProviderID_failure_cases
      [of "''nvidia-bmm://acme/tenant1/site1/not-a-uuid''"]
    ParseProviderID_failure_cases
      [of "''nvidia-bmm://acme//site1/550e8400-e29b-41d4-a716-446655440000''"]
  by (simp add: ProviderPrefix_def uuid_eval)

section \<open>The actuator\<close>

text \<open>
  Claim C4 (Exists). On a resource whose provider status reads without an instance id,
  Exists returns \<open>(false, nil)\<close> and makes no call at all. On a resource with a
  recorded instance id for which the get-instance call is issued (the provider spec
  decodes, the credentials resolve, the recorded id parses), an error of the call gives
  \<open>(false, nil)\<close>, and a response gives \<open>(true, nil)\<close> exactly when it carries a
  payload; the call is the only effect.
\<close>

theorem Exists_absence:
  "(getProviderStatus machine = Inr providerStatus \<and> st_InstanceID providerStatus = None \<longrightarrow>
      Exists nc a machine = ((False, None), [])) \<and>
   (getProviderStatus machine = Inr providerStatus \<and>
    st_InstanceID providerStatus = Some instanceID \<and>
    getProviderSpec machine = Inr providerSpec \<and>
    getNvidiaBmmClient nc a providerSpec = Inr (bmmClient, org) \<and>
    uuid_Parse instanceID = Some instanceUUID \<longrightarrow>
      (GetInstanceWithResponse bmmClient org instanceUUID = Inl err \<longrightarrow>
         Exists nc a machine = ((False, None), [GetInstanceCall org instanceUUID])) \<and>
      (GetInstanceWithResponse bmmClient org instanceUUID = Inr resp \<longrightarrow>
         Exists nc a machine =
           ((JSON200 resp \<noteq> None, None), [GetInstanceCall org instanceUUID])))"
  by (auto simp: Exists_def dest: getProviderStatus_kind)

theorem Exists_absence_witness:
  "Exists noClientFactory (testActuator uuid1) testMachine = ((False, None), []) \<and>
   Exists noClientFactory (testActuator uuid1) (createdMachine uuid1) =
     ((True, None), [GetInstanceCall ''test-org'' uuid1]) \<and>
   Exists noClientFactory
     (NewActuatorWithClient testStore False (failingGetClient uuid1) ''test-org'')
     (createdMachine uuid1) =
     ((False, None), [GetInstanceCall ''test-org'' uuid1]) \<and>
   Exists noClientFactory (NewActuatorWithClient testStore False noDataClient ''test-org'')
     (createdMachine uuid1) =
     ((False, None), [GetInstanceCall ''test-org'' uuid1])"
proof -
  let ?st = "emptyStatus\<lparr>st_InstanceID := Some (uuid_String uuid1)\<rparr>"
  have st: "getProviderStatus (createdMachine uuid1) = Inr ?st"
    "st_InstanceID ?st = Some ''550e8400-e29b-41d4-a716-446655440000''"
    by (simp_all add: createdMachine_def getProviderStatus_provisioned uuid_String_uuid1)
  have ps: "getProviderSpec (createdMachine uuid1) = Inr testProviderSpec"
    by (simp add: createdMachine_def getProviderSpec_provisioned)
  have e: "st_InstanceID emptyStatus = None"
    by (simp add: emptyStatus_def)
  have c1: "Exists noClientFactory (testActuator uuid1) testMachine = ((False, None), [])"
    using Exists_absence [where machine = testMachine and providerStatus = emptyStatus
        and nc = noClientFactory and a = "testActuator uuid1"]
      getProviderStatus_testMachine e
    by simp
  have c2: "Exists noClientFactory (testActuator uuid1) (createdMachine uuid1) =
      ((True, None), [GetInstanceCall ''test-org'' uuid1])"
    using Exists_absence [where machine = "createdMachine uuid1" and providerStatus = ?st
        and nc = noClientFactory and a = "testActuator uuid1"
        and instanceID = "''550e8400-e29b-41d4-a716-446655440000''"
        and providerSpec = testProviderSpec and bmmClient = "mockNvidiaBmmClient uuid1"
        and org = "''test-org''" and instanceUUID = uuid1
        and resp = "\<lparr>JSON200 = Some \<lparr>inst_Id = Some uuid1, inst_MachineId = None,
                         inst_Status = None, inst_Interfaces = None\<rparr>,
                       get_StatusCode = 200\<rparr>"]
      st ps uuid_Parse_uuid1
    by (simp add: testActuator_def getNvidiaBmmClient_injected mockNvidiaBmmClient_def)
  have c3: "Exists noClientFactory
      (NewActuatorWithClient testStore False (failingGetClient uuid1) ''test-org'')
      (createdMachine uuid1) = ((False, None), [GetInstanceCall ''test-org'' uuid1])"
    using Exists_absence [where machine = "createdMachine uuid1" and providerStatus = ?st
        and nc = noClientFactory
        and a = "NewActuatorWithClient testStore False (failingGetClient uuid1) ''test-org''"
        and instanceID = "''550e8400-e29b-41d4-a716-446655440000''"
        and providerSpec = testProviderSpec and bmmClient = "failingGetClient uuid1"
        and org = "''test-org''" and instanceUUID = uuid1
        and err = "External ''connection refused''"]
      st ps uuid_Parse_uuid1
    by (simp add: getNvidiaBmmClient_injected failingGetClient_def)
  have c4: "Exists noClientFactory
      (NewActuatorWithClient testStore False noDataClient ''test-org'')
      (createdMachine uuid1) = ((False, None), [GetInstanceCall ''test-org'' uuid1])"
    using Exists_absence [where machine = "createdMachine uuid1" and providerStatus = ?st
        and nc = noClientFactory
        and a = "NewActuatorWithClient testStore False noDataClient ''test-org''"
        and instanceID = "''550e8400-e29b-41d4-a716-446655440000''"
        and providerSpec = testProviderSpec and bmmClient = noDataClient
        and org = "''test-org''" and instanceUUID = uuid1
        and resp = "\<lparr>JSON200 = None, get_StatusCode = 404\<rparr>"]
      st ps uuid_Parse_uuid1
    by (simp add: getNvidiaBmmClient_injected noDataClient_def)
  from c1 c2 c3 c4 show ?thesis by simp
qed

text \<open>
  Claim C5 (Delete), as amended. Delete decodes the provider spec first. On a resource
  whose provider spec decodes and whose provider status reads without an instance id,
  Delete returns nil and makes no call at all (so a second Delete after the status was
  cleared is a no-op). With a recorded instance id for which the delete-instance call is
  issued, a response with status 204 or 404 gives nil and any other status gives an
  error.
\<close>

theorem Delete_cases:
  "(getProviderSpec machine = Inr providerSpec \<and>
    getProviderStatus machine = Inr providerStatus \<and>
    st_InstanceID providerStatus = None \<longrightarrow>
      Delete nc a machine = (None, [])) \<and>
   (getProviderSpec machine = Inr providerSpec \<and>
    getProviderStatus machine = Inr providerStatus \<and>
    st_InstanceID providerStatus = Some instanceID \<and>
    getNvidiaBmmClient nc a providerSpec = Inr (bmmClient, org) \<and>
    uuid_Parse instanceID = Some instanceUUID \<and>
    DeleteInstanceWithResponse bmmClient org instanceUUID = Inr resp \<longrightarrow>
      (delete_StatusCode resp = 204 \<or> delete_StatusCode resp = 404 \<longrightarrow>
         Delete nc a machine =
           (None, DeleteInstanceCall org instanceUUID # recordEvent a ''Normal'' ''Deleted'')) \<and>
      (delete_StatusCode resp \<noteq> 204 \<and> delete_StatusCode resp \<noteq> 404 \<longrightarrow>
         Delete nc a machine =
           (Some (Errorf_d ''delete instance returned unexpected status''
                    (delete_StatusCode resp)),
            DeleteInstanceCall org instanceUUID #
            recordEvent a ''Warning'' ''FailedDelete'')))"
  by (auto simp: Delete_def dest: getProviderStatus_kind)

theorem Delete_cases_witness:
  "Delete noClientFactory (testActuator uuid1) testMachine = (None, []) \<and>
   Delete noClientFactory (testActuator uuid1) (createdMachine uuid1) =
     (None, [DeleteInstanceCall ''test-org'' uuid1]) \<and>
   Delete noClientFactory
     (NewActuatorWithClient testStore True (goneClient uuid1) ''test-org'')
     (createdMachine uuid1) =
     (None, [DeleteInstanceCall ''test-org'' uuid1, Eventf ''Normal'' ''Deleted'']) \<and>
   Delete noClientFactory (NewActuatorWithClient testStore True noDataClient ''test-org'')
     (createdMachine uuid1) =
     (Some (Errorf_d ''delete instance returned unexpected status'' 500),
      [DeleteInstanceCall ''test-org'' uuid1, Eventf ''Warning'' ''FailedDelete''])"
proof -
  let ?st = "emptyStatus\<lparr>st_InstanceID := Some (uuid_String uuid1)\<rparr>"
  have st: "getProviderStatus (createdMachine uuid1) = Inr ?st"
    "st_InstanceID ?st = Some ''550e8400-e29b-41d4-a716-446655440000''"
    by (simp_all add: createdMachine_def getProviderStatus_provisioned uuid_String_uuid1)
  have ps: "getProviderSpec (createdMachine uuid1) = Inr testProviderSpec"
    by (simp add: createdMachine_def getProviderSpec_provisioned)
  have e: "st_InstanceID emptyStatus = None"
    by (simp add: emptyStatus_def)
  have c1: "Delete noClientFactory (testActuator uuid1) testMachine = (None, [])"
    using Delete_cases [where machine = testMachine and providerStatus = emptyStatus
        and providerSpec = testProviderSpec and nc = noClientFactory
        and a = "testActuator uuid1"]
      getProviderStatus_testMachine getProviderSpec_testMachine e
    by simp
  have c2: "Delete noClientFactory (testActuator uuid1) (createdMachine uuid1) =
      (None, [DeleteInstanceCall ''test-org'' uuid1])"
    using Delete_cases [where machine = "createdMachine uuid1" and providerStatus = ?st
        and nc = noClientFactory and a = "testActuator uuid1"
        and instanceID = "''550e8400-e29b-41d4-a716-446655440000''"
        and providerSpec = testProviderSpec and bmmClient = "mockNvidiaBmmClient uuid1"
        and org = "''test-org''" and instanceUUID = uuid1
        and resp = "\<lparr>delete_StatusCode = 204\<rparr>"]
      st ps uuid_Parse_uuid1
    by (simp add: testActuator_def getNvidiaBmmClient_injected mockNvidiaBmmClient_def
        recordEvent_NewActuatorWithClient)
  have c3: "Delete noClientFactory
      (NewActuatorWithClient testStore True (goneClient uuid1) ''test-org'')
      (createdMachine uuid1) =
      (None, [DeleteInstanceCall ''test-org'' uuid1, Eventf ''Normal'' ''Deleted''])"
    using Delete_cases [where machine = "createdMachine uuid1" and providerStatus = ?st
        and nc = noClientFactory
        and a = "NewActuatorWithClient testStore True (goneClient uuid1) ''test-org''"
        and instanceID = "''550e8400-e29b-41d4-a716-446655440000''"
        and providerSpec = testProviderSpec and bmmClient = "goneClient uuid1"
        and org = "''test-org''" and instanceUUID = uuid1
        and resp = "\<lparr>delete_StatusCode = 404\<rparr>"]
      st ps uuid_Parse_uuid1
    by (simp add: getNvidiaBmmClient_injected goneClient_def recordEvent_NewActuatorWithClient)
  have c4: "Delete noClientFactory
      (NewActuatorWithClient testStore True noDataClient ''test-org'')
      (createdMachine uuid1) =
      (Some (Errorf_d ''delete instance returned unexpected status'' 500),
       [DeleteInstanceCall ''test-org'' uuid1, Eventf ''Warning'' ''FailedDelete''])"
    using Delete_cases [where machine = "createdMachine uuid1" and providerStatus = ?st
        and nc = noClientFactory
        and a = "NewActuatorWithClient testStore True noDataClient ''test-org''"
        and instanceID = "''550e8400-e29b-41d4-a716-446655440000''"
        and providerSpec = testProviderSpec and bmmClient = noDataClient
        and org = "''test-org''" and instanceUUID = uuid1
        and resp = "\<lparr>delete_StatusCode = 500\<rparr>"]
      st ps uuid_Parse_uuid1
    by (simp add: getNvidiaBmmClient_injected noDataClient_def recordEvent_NewActuatorWithClient)
  from c1 c2 c3 c4 show ?thesis by simp
qed

text \<open>
  Counterexample to C5 as stated: the test machine without a provider spec has no
  recorded instance id, and Delete returns an error instead of the immediate success.
\<close>

theorem Delete_without_providerSpec_fails:
  "getProviderStatus brokenMachine = Inr emptyStatus \<and>
   st_InstanceID emptyStatus = None \<and>
   Delete noClientFactory (testActuator uuid1) brokenMachine =
     (Some (Errorf_w ''failed to get provider spec'' (Errorf ''providerSpec.value not found'')),
      [])"
  by (simp add: Delete_def getProviderSpec_def getProviderStatus_def fixture_defs)

text \<open>
  Claim C10 (Delete reads the provider spec first). For every resource whose
  \<open>spec.providerSpec.value\<close> is absent or does not decode, Delete returns an error and
  makes no call, whatever the status holds; Exists on the same resource, when its status
  reads without an instance id, returns \<open>(false, nil)\<close> without reading the provider
  spec.
\<close>

theorem Delete_requires_providerSpec:
  assumes "case m_spec machine of
             Obj specMap \<Rightarrow>
               providerSpec_value specMap = Missing \<or> providerSpec_value specMap = Malformed
           | _ \<Rightarrow> True"
  shows "(\<exists>err. Delete nc a machine = (Some err, [])) \<and>
         (getProviderStatus machine = Inr providerStatus \<and>
          st_InstanceID providerStatus = None \<longrightarrow>
            Delete nc a machine =
              (Some (Errorf_w ''failed to get provider spec''
                 (case m_spec machine of
                    Obj specMap \<Rightarrow>
                      (case providerSpec_value specMap of
                         Malformed \<Rightarrow>
                           Errorf_w ''failed to unmarshal providerSpec'' (External ''json'')
                       | _ \<Rightarrow> Errorf ''providerSpec.value not found'')
                  | _ \<Rightarrow> Errorf ''providerSpec.value not found'')), []) \<and>
            Exists nc a machine = ((False, None), []))"
proof -
  from assms have "\<exists>err. getProviderSpec machine = Inl err"
    by (auto simp: getProviderSpec_def split: node.splits field.splits)
  then have 1: "\<exists>err. Delete nc a machine = (Some err, [])"
    by (auto simp: Delete_def)
  have 2: "getProviderStatus machine = Inr providerStatus \<and>
      st_InstanceID providerStatus = None \<longrightarrow>
      Delete nc a machine =
        (Some (Errorf_w ''failed to get provider spec''
           (case m_spec machine of
              Obj specMap \<Rightarrow>
                (case providerSpec_value specMap of
                   Malformed \<Rightarrow>
                     Errorf_w ''failed to unmarshal providerSpec'' (External ''json'')
                 | _ \<Rightarrow> Errorf ''providerSpec.value not found'')
            | _ \<Rightarrow> Errorf ''providerSpec.value not found'')), []) \<and>
      Exists nc a machine = ((False, None), [])"
    using assms
    by (auto simp: Exists_def Delete_def getProviderSpec_def dest: getProviderStatus_kind
        split: node.splits field.splits)
  from 1 2 show ?thesis by blast
qed

theorem Delete_requires_providerSpec_witness:
  "Delete noClientFactory (testActuator uuid1) brokenMachine =
     (Some (Errorf_w ''failed to get provider spec'' (Errorf ''providerSpec.value not found'')),
      []) \<and>
   Exists noClientFactory (testActuator uuid1) brokenMachine = ((False, None), []) \<and>
   Delete noClientFactory (testActuator uuid1)
     (createdMachine uuid1\<lparr>m_spec := Obj \<lparr>providerSpec_value = Malformed,
                                             providerID = None\<rparr>\<rparr>) =
     (Some (Errorf_w ''failed to get provider spec''
        (Errorf_w ''failed to unmarshal providerSpec'' (External ''json''))), [])"
proof -
  have a: "case m_spec brokenMachine of
             Obj specMap \<Rightarrow>
               providerSpec_value specMap = Missing \<or> providerSpec_value specMap = Malformed
           | _ \<Rightarrow> True"
    by (simp add: fixture_defs)
  have st: "getProviderStatus brokenMachine = Inr emptyStatus"
    "st_InstanceID emptyStatus = None"
    by (simp_all add: getProviderStatus_def fixture_defs)
  have sp: "m_spec brokenMachine = Obj \<lparr>providerSpec_value = Missing, providerID = None\<rparr>"
    by (simp add: fixture_defs)
  have c1: "Delete noClientFactory (testActuator uuid1) brokenMachine =
      (Some (Errorf_w ''failed to get provider spec''
         (Errorf ''providerSpec.value not found'')), []) \<and>
      Exists noClientFactory (testActuator uuid1) brokenMachine = ((False, None), [])"
    using Delete_requires_providerSpec [OF a, where nc = noClientFactory
        and a = "testActuator uuid1" and providerStatus = emptyStatus] st
    by (simp add: sp)
  have c2: "Delete noClientFactory (testActuator uuid1)
      (createdMachine uuid1\<lparr>m_spec := Obj \<lparr>providerSpec_value = Malformed,
                                              providerID = None\<rparr>\<rparr>) =
      (Some (Errorf_w ''failed to get provider spec''
         (Errorf_w ''failed to unmarshal providerSpec'' (External ''json''))), [])"
    by (simp add: Delete_def getProviderSpec_def fixture_defs)
  from c1 c2 show ?thesis by simp
qed

text \<open>
  Claim C1 (Create). Let the resource be an unstructured document whose provider spec
  decodes, let the credentials resolve to a client and an organisation, let the request
  build (every identifier of the spec parses) and let the create call return a response.
  \<^item> If the response has no payload, Create returns the "no data" error with the status
    code; the object is unchanged.
  \<^item> If the response has a payload with an id, the status subtree can be written (it is
    absent or a map) and the store accepts the status write and the object write, then
    Create returns nil; the provider status is the instance id in string form, the
    machine id and state of the payload and one \<open>InternalIP\<close> address for every address of
    every interface of the payload; \<open>spec.providerID\<close> is
    \<open>nvidia-bmm://org/tenantId/siteId/instanceId\<close> with the resolved organisation and the
    tenant and site of the spec; the effects are one create call, the status write, the
    object write and the event, in this order.
\<close>

theorem Create_result:
  assumes kind: "objKind machine = UnstructuredObject"
    and doc: "m_spec machine = Obj specMap"
    and decoded: "providerSpec_value specMap = Present providerSpec"
    and cred: "getNvidiaBmmClient nc a providerSpec = Inr (bmmClient, org)"
    and req: "buildInstanceRequest (objName machine) providerSpec = Inr instanceReq"
    and resp: "CreateInstanceWithResponse bmmClient org instanceReq = Inr resp"
  shows
    "(JSON201 resp = None \<longrightarrow>
        Create nc a machine =
          (Some (Errorf_d ''create instance returned no data, status code''
                   (create_StatusCode resp)),
           machine,
           CreateInstanceCall org instanceReq # recordEvent a ''Warning'' ''FailedCreate'')) \<and>
     (let providerStatus =
            \<lparr>st_InstanceID = Some (uuid_String instanceId),
             st_MachineID = inst_MachineId inst,
             st_InstanceState = inst_Status inst,
             st_Addresses = instanceAddresses inst,
             st_Conditions = []\<rparr>;
          pid = ''nvidia-bmm://'' @ org @ ''/'' @ TenantID providerSpec @ ''/'' @
                SiteID providerSpec @ ''/'' @ uuid_String instanceId;
          machine1 = machine\<lparr>m_status := Obj (Present providerStatus)\<rparr>;
          machine2 = machine1\<lparr>m_spec := Obj (specMap\<lparr>providerID := Some pid\<rparr>)\<rparr>
      in JSON201 resp = Some inst \<and> inst_Id inst = Some instanceId \<and>
         m_status machine \<noteq> Null \<and> m_status machine \<noteq> NonMap \<and>
         Status_Update (client a) machine1 = None \<and>
         Update_object (client a) machine2 = None \<longrightarrow>
           Create nc a machine =
             (None, machine2,
              [CreateInstanceCall org instanceReq, StatusUpdateCall machine1,
               UpdateCall machine2] @ recordEvent a ''Normal'' ''Created'') \<and>
           getProviderStatus machine2 = Inr providerStatus \<and>
           providerID_of machine2 = Some pid \<and>
           set (st_Addresses providerStatus) =
             {\<lparr>addr_Type = ''InternalIP'', addr_Address = ipAddr\<rparr> | ipAddr ifaces iface ipAddrs.
                inst_Interfaces inst = Some ifaces \<and> iface \<in> set ifaces \<and>
                IpAddresses iface = Some ipAddrs \<and> ipAddr \<in> set ipAddrs})"
proof -
  have gs: "getProviderSpec machine = Inr providerSpec"
    using kind doc decoded by (simp add: getProviderSpec_Inr_iff)
  have k: "objKind machine \<noteq> RuntimeObject" using kind by simp
  show ?thesis
    using k kind doc
    by (auto simp: Create_def gs cred req resp Let_def setProviderStatus_def setProviderID_def
        String_def NewProviderID_def ProviderPrefix_def getProviderStatus_def
        providerID_of_def set_instanceAddresses simp del: set_concat)
qed

theorem Create_result_witness:
  "Create noClientFactory (NewActuatorWithClient testStore True (fullClient uuid1) ''test-org'')
     testMachine =
     (None, provisionedMachine (fullStatus uuid1) uuid1,
      [CreateInstanceCall ''test-org'' testRequest,
       StatusUpdateCall (testMachine\<lparr>m_status := Obj (Present (fullStatus uuid1))\<rparr>),
       UpdateCall (provisionedMachine (fullStatus uuid1) uuid1),
       Eventf ''Normal'' ''Created'']) \<and>
   providerID_of (provisionedMachine (fullStatus uuid1) uuid1) =
     Some (''nvidia-bmm://test-org/b013708a-99f0-47b2-a630-cabb4ae1d3df/'' @
           ''8a880c71-fe4b-4e43-9e24-ebfcb8a84c5f/550e8400-e29b-41d4-a716-446655440000'') \<and>
   Create (\<lambda>endpoint token. Inr noDataClient) (NewActuator testStore True) testMachine =
     (Some (Errorf_d ''create instance returned no data, status code'' 500), testMachine,
      [CreateInstanceCall ''test-org'' testRequest, Eventf ''Warning'' ''FailedCreate''])"
proof -
  let ?sm = "\<lparr>providerSpec_value = Present testProviderSpec, providerID = None\<rparr>"
  have kind: "objKind testMachine = UnstructuredObject"
    by (simp add: fixture_defs)
  have doc: "m_spec testMachine = Obj ?sm"
    by (simp add: fixture_defs)
  have decoded: "providerSpec_value ?sm = Present testProviderSpec"
    by simp
  have req: "buildInstanceRequest (objName testMachine) testProviderSpec = Inr testRequest"
    by (simp only: objName_testMachine buildInstanceRequest_test)
  have r1: "CreateInstanceWithResponse (fullClient uuid1) ''test-org'' testRequest =
      Inr \<lparr>JSON201 = Some (fullInstance uuid1), create_StatusCode = 201\<rparr>"
    by (simp add: fullClient_def)
  have r2: "CreateInstanceWithResponse noDataClient ''test-org'' testRequest =
      Inr \<lparr>JSON201 = None, create_StatusCode = 500\<rparr>"
    by (simp add: noDataClient_def)
  have cred1: "getNvidiaBmmClient noClientFactory
      (NewActuatorWithClient testStore True (fullClient uuid1) ''test-org'') testProviderSpec =
      Inr (fullClient uuid1, ''test-org'')"
    by (rule getNvidiaBmmClient_injected)
  have cred2: "getNvidiaBmmClient (\<lambda>endpoint token. Inr noDataClient)
      (NewActuator testStore True) testProviderSpec = Inr (noDataClient, ''test-org'')"
    by (rule getNvidiaBmmClient_secret)
  have ids: "TenantID testProviderSpec = ''b013708a-99f0-47b2-a630-cabb4ae1d3df''"
    "SiteID testProviderSpec = ''8a880c71-fe4b-4e43-9e24-ebfcb8a84c5f''"
    by (simp_all add: testProviderSpec_def)
  have c1: "Create noClientFactory
      (NewActuatorWithClient testStore True (fullClient uuid1) ''test-org'') testMachine =
      (None, provisionedMachine (fullStatus uuid1) uuid1,
       [CreateInstanceCall ''test-org'' testRequest,
        StatusUpdateCall (testMachine\<lparr>m_status := Obj (Present (fullStatus uuid1))\<rparr>),
        UpdateCall (provisionedMachine (fullStatus uuid1) uuid1),
        Eventf ''Normal'' ''Created'']) \<and>
      providerID_of (provisionedMachine (fullStatus uuid1) uuid1) =
      Some (''nvidia-bmm://test-org/b013708a-99f0-47b2-a630-cabb4ae1d3df/'' @
            ''8a880c71-fe4b-4e43-9e24-ebfcb8a84c5f/550e8400-e29b-41d4-a716-446655440000'')"
    using Create_result [OF kind doc decoded cred1 req r1,
        where inst = "fullInstance uuid1" and instanceId = uuid1]
    by (simp add: Let_def ids uuid_String_uuid1 instanceAddresses_def recordEvent_def
        NewActuatorWithClient_def testStore_def fullInstance_def fullStatus_def
        provisionedMachine_def testProviderIDString_def testMachine_def createTestMachine_def)
  have c2: "Create (\<lambda>endpoint token. Inr noDataClient) (NewActuator testStore True)
      testMachine =
      (Some (Errorf_d ''create instance returned no data, status code'' 500), testMachine,
       [CreateInstanceCall ''test-org'' testRequest, Eventf ''Warning'' ''FailedCreate''])"
    using Create_result [OF kind doc decoded cred2 req r2]
    by (simp add: recordEvent_NewActuator)
  from c1 c2 show ?thesis by simp
qed

text \<open>
  Claim C6 (Update), as amended. Every Update that returns nil has read a provider
  status with an instance id and fetched a payload for it with one get-instance call, and
  leaves a provider status in which
  \<^item> the instance id and the conditions are those read;
  \<^item> the machine id and the instance state are those of the payload where the payload
    reports them, and those read where it does not;
  \<^item> the address list is rebuilt from the payload alone: one \<open>InternalIP\<close> address for
    every address of every interface, so an address no longer reported disappears.
\<close>

theorem Update_refresh:
  assumes "fst (Update nc a machine) = None"
  shows "\<exists>providerSpec providerStatus instanceID bmmClient org instanceUUID resp inst.
     getProviderSpec machine = Inr providerSpec \<and>
     getProviderStatus machine = Inr providerStatus \<and>
     st_InstanceID providerStatus = Some instanceID \<and>
     getNvidiaBmmClient nc a providerSpec = Inr (bmmClient, org) \<and>
     uuid_Parse instanceID = Some instanceUUID \<and>
     GetInstanceWithResponse bmmClient org instanceUUID = Inr resp \<and>
     JSON200 resp = Some inst \<and>
     getProviderStatus (fst (snd (Update nc a machine))) =
       Inr \<lparr>st_InstanceID = Some instanceID,
            st_MachineID =
              (case inst_MachineId inst of
                 None \<Rightarrow> st_MachineID providerStatus | Some machineId \<Rightarrow> Some machineId),
            st_InstanceState =
              (case inst_Status inst of
                 None \<Rightarrow> st_InstanceState providerStatus | Some s \<Rightarrow> Some s),
            st_Addresses = instanceAddresses inst,
            st_Conditions = st_Conditions providerStatus\<rparr> \<and>
     set (instanceAddresses inst) =
       {\<lparr>addr_Type = ''InternalIP'', addr_Address = ipAddr\<rparr> | ipAddr ifaces iface ipAddrs.
          inst_Interfaces inst = Some ifaces \<and> iface \<in> set ifaces \<and>
          IpAddresses iface = Some ipAddrs \<and> ipAddr \<in> set ipAddrs} \<and>
     filter isRemoteCall (snd (snd (Update nc a machine))) =
       [GetInstanceCall org instanceUUID]"
proof -
  have k: "objKind machine \<noteq> RuntimeObject"
    using assms by (cases "objKind machine = RuntimeObject") (simp_all add: Update_def)
  obtain providerSpec where ps: "getProviderSpec machine = Inr providerSpec"
    using assms k by (cases "getProviderSpec machine") (simp_all add: Update_def)
  obtain providerStatus where st: "getProviderStatus machine = Inr providerStatus"
    using assms k ps by (cases "getProviderStatus machine") (simp_all add: Update_def)
  obtain instanceID where iid: "st_InstanceID providerStatus = Some instanceID"
    using assms k ps st by (cases "st_InstanceID providerStatus") (simp_all add: Update_def)
  obtain bmmClient org where cl: "getNvidiaBmmClient nc a providerSpec = Inr (bmmClient, org)"
    using assms k ps st iid
    by (cases "getNvidiaBmmClient nc a providerSpec") (auto simp: Update_def)
  obtain instanceUUID where u: "uuid_Parse instanceID = Some instanceUUID"
    using assms k ps st iid cl by (cases "uuid_Parse instanceID") (simp_all add: Update_def)
  obtain resp where r: "GetInstanceWithResponse bmmClient org instanceUUID = Inr resp"
    using assms k ps st iid cl u
    by (cases "GetInstanceWithResponse bmmClient org instanceUUID") (simp_all add: Update_def)
  obtain inst where i: "JSON200 resp = Some inst"
    using assms k ps st iid cl u r by (cases "JSON200 resp") (simp_all add: Update_def)
  let ?new = "\<lparr>st_InstanceID = Some instanceID,
            st_MachineID =
              (case inst_MachineId inst of
                 None \<Rightarrow> st_MachineID providerStatus | Some machineId \<Rightarrow> Some machineId),
            st_InstanceState =
              (case inst_Status inst of
                 None \<Rightarrow> st_InstanceState providerStatus | Some s \<Rightarrow> Some s),
            st_Addresses = instanceAddresses inst,
            st_Conditions = st_Conditions providerStatus\<rparr>"
  have new: "(case inst_MachineId inst of
                None \<Rightarrow> (case inst_Status inst of
                           None \<Rightarrow> providerStatus
                         | Some s \<Rightarrow> providerStatus\<lparr>st_InstanceState := Some s\<rparr>)
              | Some machineId \<Rightarrow>
                  (case inst_Status inst of
                     None \<Rightarrow> providerStatus
                   | Some s \<Rightarrow> providerStatus\<lparr>st_InstanceState := Some s\<rparr>)
                  \<lparr>st_MachineID := Some machineId\<rparr>)
             \<lparr>st_Addresses := instanceAddresses inst\<rparr> = ?new"
    using iid by (cases providerStatus) (simp split: option.splits)
  have upd: "Update nc a machine =
      (case setProviderStatus a machine ?new of
         (Some err, machine1, w1) \<Rightarrow>
           (Some (Errorf_w ''failed to update provider status'' err), machine1,
            GetInstanceCall org instanceUUID # w1)
       | (None, machine1, w1) \<Rightarrow> (None, machine1, GetInstanceCall org instanceUUID # w1))"
    using k by (simp add: Update_def ps st iid cl u r i Let_def new)
  have kind: "objKind machine = UnstructuredObject"
    using ps by (rule getProviderSpec_kind)
  have "getProviderStatus (fst (snd (Update nc a machine))) = Inr ?new \<and>
      filter isRemoteCall (snd (snd (Update nc a machine))) = [GetInstanceCall org instanceUUID]"
    using assms kind unfolding upd
    by (auto simp: setProviderStatus_def getProviderStatus_def Let_def
        split: option.splits if_splits)
  with ps st iid cl u r i set_instanceAddresses [of inst] show ?thesis by blast
qed

theorem Update_refresh_witness:
  "fst (Update noClientFactory
          (NewActuatorWithClient testStore False (fullClient uuid1) ''test-org'')
          (createdMachine uuid1)) = None \<and>
   getProviderStatus
     (fst (snd (Update noClientFactory
                  (NewActuatorWithClient testStore False (fullClient uuid1) ''test-org'')
                  (createdMachine uuid1)))) =
     Inr (fullStatus uuid1) \<and>
   filter isRemoteCall
     (snd (snd (Update noClientFactory
                  (NewActuatorWithClient testStore False (fullClient uuid1) ''test-org'')
                  (createdMachine uuid1)))) =
     [GetInstanceCall ''test-org'' uuid1]"
proof -
  let ?a = "NewActuatorWithClient testStore False (fullClient uuid1) ''test-org''"
  have ok: "fst (Update noClientFactory ?a (createdMachine uuid1)) = None"
    by (simp add: Update_def createdMachine_def getProviderSpec_def getProviderStatus_def
        getNvidiaBmmClient_def uuid_String_uuid1 uuid_Parse_uuid1 fullClient_def Let_def
        setProviderStatus_def emptyStatus_def provisionedMachine_def testMachine_def
        createTestMachine_def NewActuatorWithClient_def testStore_def)
  from Update_refresh [OF ok] ok show ?thesis
    by (simp add: Update_def createdMachine_def getProviderSpec_def getProviderStatus_def
        getNvidiaBmmClient_def uuid_String_uuid1 uuid_Parse_uuid1 fullClient_def
        fullInstance_def fullStatus_def instanceAddresses_def Let_def setProviderStatus_def
        emptyStatus_def provisionedMachine_def testMachine_def createTestMachine_def
        NewActuatorWithClient_def testStore_def)
qed

text \<open>
  Counterexample to C6 as stated. The status records state \<open>Ready\<close>, machine
  \<open>machine-7\<close> and three addresses; the fresh payload reports an id only. Update
  succeeds; the addresses are gone, but the state and the machine id that the platform no
  longer reports are still in the status.
\<close>

theorem Update_keeps_unreported_state:
  "GetInstanceWithResponse (mockNvidiaBmmClient uuid1) ''test-org'' uuid1 =
     Inr \<lparr>JSON200 = Some \<lparr>inst_Id = Some uuid1, inst_MachineId = None, inst_Status = None,
                            inst_Interfaces = None\<rparr>,
          get_StatusCode = 200\<rparr> \<and>
   getProviderStatus (provisionedMachine (fullStatus uuid1) uuid1) = Inr (fullStatus uuid1) \<and>
   fst (Update noClientFactory (testActuator uuid1)
          (provisionedMachine (fullStatus uuid1) uuid1)) = None \<and>
   getProviderStatus
     (fst (snd (Update noClientFactory (testActuator uuid1)
                  (provisionedMachine (fullStatus uuid1) uuid1)))) =
     Inr \<lparr>st_InstanceID = Some ''550e8400-e29b-41d4-a716-446655440000'',
          st_MachineID = Some ''machine-7'', st_InstanceState = Some ''Ready'',
          st_Addresses = [], st_Conditions = []\<rparr>"
  by (simp add: Update_def getProviderSpec_def getProviderStatus_def testActuator_def
      getNvidiaBmmClient_def uuid_String_uuid1 uuid_Parse_uuid1 fullStatus_def
      mockNvidiaBmmClient_def instanceAddresses_def Let_def setProviderStatus_def
      provisionedMachine_def testMachine_def createTestMachine_def
      NewActuatorWithClient_def testStore_def)

section \<open>The provider identifier over sequences of operations\<close>

text \<open>
  Every Create that returns nil has written \<open>spec.providerID\<close>: the identifier of the
  instance whose id it has just recorded in the status, whatever the object held before.
\<close>

lemma Create_success:
  assumes "fst (Create nc a machine) = None"
  shows "\<exists>providerSpec bmmClient org instanceId.
     getProviderSpec machine = Inr providerSpec \<and>
     getNvidiaBmmClient nc a providerSpec = Inr (bmmClient, org) \<and>
     providerID_of (fst (snd (Create nc a machine))) =
       Some (String (NewProviderID org (TenantID providerSpec) (SiteID providerSpec) instanceId)) \<and>
     (\<exists>providerStatus. getProviderStatus (fst (snd (Create nc a machine))) = Inr providerStatus \<and>
        st_InstanceID providerStatus = Some (uuid_String instanceId))"
proof -
  have k: "objKind machine \<noteq> RuntimeObject"
    using assms by (cases "objKind machine = RuntimeObject") (simp_all add: Create_def)
  obtain providerSpec where ps: "getProviderSpec machine = Inr providerSpec"
    using assms k by (cases "getProviderSpec machine") (simp_all add: Create_def)
  obtain bmmClient org where cl: "getNvidiaBmmClient nc a providerSpec = Inr (bmmClient, org)"
    using assms k ps
    by (cases "getNvidiaBmmClient nc a providerSpec") (auto simp: Create_def)
  obtain instanceReq where
    rq: "buildInstanceRequest (objName machine) providerSpec = Inr instanceReq"
    using assms k ps cl
    by (cases "buildInstanceRequest (objName machine) providerSpec") (simp_all add: Create_def)
  obtain resp where r: "CreateInstanceWithResponse bmmClient org instanceReq = Inr resp"
    using assms k ps cl rq
    by (cases "CreateInstanceWithResponse bmmClient org instanceReq") (simp_all add: Create_def)
  obtain inst where i: "JSON201 resp = Some inst"
    using assms k ps cl rq r by (cases "JSON201 resp") (simp_all add: Create_def)
  obtain instanceId where iid: "inst_Id inst = Some instanceId"
    using assms k ps cl rq r i by (cases "inst_Id inst") (simp_all add: Create_def)
  have kind: "objKind machine = UnstructuredObject"
    using ps by (rule getProviderSpec_kind)
  obtain specMap where sm: "m_spec machine = Obj specMap"
    using ps by (auto simp: getProviderSpec_Inr_iff)
  have "providerID_of (fst (snd (Create nc a machine))) =
       Some (String (NewProviderID org (TenantID providerSpec) (SiteID providerSpec) instanceId)) \<and>
     (\<exists>providerStatus. getProviderStatus (fst (snd (Create nc a machine))) = Inr providerStatus \<and>
        st_InstanceID providerStatus = Some (uuid_String instanceId))"
    using assms k kind sm
    by (auto simp: Create_def ps cl rq r i iid Let_def setProviderStatus_def setProviderID_def
        providerID_of_def getProviderStatus_def split: option.splits if_splits)
  with ps cl show ?thesis by blast
qed

text \<open>
  Claim C2 (provider identifier), as amended. Exists, Update and Delete never change
  \<open>spec.providerID\<close>: over every sequence of these three operations, whatever the remote
  platform and the store answer at each step, the identifier keeps its value. Create is
  the one operation that writes it, and every Create that returns nil writes it, also on
  a resource that already has one: the new value names the instance that this Create has
  recorded in the status.
\<close>

theorem providerID_written_by_Create_only:
  "((\<forall>step\<in>set steps. fst step \<noteq> OpCreate) \<longrightarrow>
      providerID_of (run_operations steps machine) = providerID_of machine) \<and>
   (fst (Create nc a machine) = None \<longrightarrow>
      (\<exists>providerSpec bmmClient org instanceId.
         getProviderSpec machine = Inr providerSpec \<and>
         getNvidiaBmmClient nc a providerSpec = Inr (bmmClient, org) \<and>
         providerID_of (fst (snd (Create nc a machine))) =
           Some (String (NewProviderID org (TenantID providerSpec) (SiteID providerSpec)
                   instanceId)) \<and>
         (\<exists>providerStatus.
            getProviderStatus (fst (snd (Create nc a machine))) = Inr providerStatus \<and>
            st_InstanceID providerStatus = Some (uuid_String instanceId))))"
  using run_operations_spec [of steps machine] Create_success [of nc a machine]
  by (auto simp: providerID_of_def)

theorem providerID_written_by_Create_only_witness:
  "providerID_of
     (run_operations
        [(OpExists, noClientFactory, testActuator uuid1),
         (OpUpdate, noClientFactory,
          NewActuatorWithClient testStore False (fullClient uuid1) ''test-org''),
         (OpDelete, noClientFactory, testActuator uuid1),
         (OpUpdate, noClientFactory,
          NewActuatorWithClient refusingStore False noDataClient ''test-org'')]
        (createdMachine uuid1)) =
     Some (testProviderIDString uuid1) \<and>
   fst (Create noClientFactory
          (NewActuatorWithClient testStore False (failingGetClient uuid2) ''test-org'')
          (createdMachine uuid1)) = None \<and>
   providerID_of
     (fst (snd (Create noClientFactory
                  (NewActuatorWithClient testStore False (failingGetClient uuid2) ''test-org'')
                  (createdMachine uuid1)))) =
     Some (testProviderIDString uuid2)"
proof -
  let ?steps = "[(OpExists, noClientFactory, testActuator uuid1),
         (OpUpdate, noClientFactory,
          NewActuatorWithClient testStore False (fullClient uuid1) ''test-org''),
         (OpDelete, noClientFactory, testActuator uuid1),
         (OpUpdate, noClientFactory,
          NewActuatorWithClient refusingStore False noDataClient ''test-org'')]"
  let ?a = "NewActuatorWithClient testStore False (failingGetClient uuid2) ''test-org''"
  have ok: "fst (Create noClientFactory ?a (createdMachine uuid1)) = None"
    by (simp add: Create_createdMachine)
  have none: "\<forall>step\<in>set ?steps. fst step \<noteq> OpCreate"
    by simp
  note at_input = providerID_written_by_Create_only
    [where steps = ?steps and machine = "createdMachine uuid1" and nc = noClientFactory
       and a = ?a]
  from at_input none have
    "providerID_of (run_operations ?steps (createdMachine uuid1)) =
       providerID_of (createdMachine uuid1)"
    by blast
  with ok show ?thesis
    by (simp only: providerID_of_createdMachine Create_createdMachine fst_conv snd_conv
        simp_thms)
qed

text \<open>
  Counterexample to C2 as stated. The first Create records instance
  \<open>550e8400-...\<close> and writes its identifier. The get-instance call then fails, so
  Exists answers \<open>(false, nil)\<close>, which is what makes the reconciler call Create
  again; the second Create succeeds with a new instance and replaces the identifier that
  was already set.
\<close>

theorem providerID_rewritten_by_second_Create:
  "providerID_of
     (run_operations [(OpCreate, noClientFactory, testActuator uuid1)] testMachine) =
     Some (''nvidia-bmm://test-org/b013708a-99f0-47b2-a630-cabb4ae1d3df/'' @
           ''8a880c71-fe4b-4e43-9e24-ebfcb8a84c5f/550e8400-e29b-41d4-a716-446655440000'') \<and>
   Exists noClientFactory
     (NewActuatorWithClient testStore False (failingGetClient uuid2) ''test-org'')
     (run_operations [(OpCreate, noClientFactory, testActuator uuid1)] testMachine) =
     ((False, None), [GetInstanceCall ''test-org'' uuid1]) \<and>
   providerID_of
     (run_operations
        [(OpCreate, noClientFactory, testActuator uuid1),
         (OpExists, noClientFactory,
          NewActuatorWithClient testStore False (failingGetClient uuid2) ''test-org''),
         (OpCreate, noClientFactory,
          NewActuatorWithClient testStore False (failingGetClient uuid2) ''test-org'')]
        testMachine) =
     Some (''nvidia-bmm://test-org/b013708a-99f0-47b2-a630-cabb4ae1d3df/'' @
           ''8a880c71-fe4b-4e43-9e24-ebfcb8a84c5f/660e8400-e29b-41d4-a716-446655440001'')"
proof -
  have ex: "Exists noClientFactory
      (NewActuatorWithClient testStore False (failingGetClient uuid2) ''test-org'')
      (createdMachine uuid1) = ((False, None), [GetInstanceCall ''test-org'' uuid1])"
    by (simp add: Exists_def createdMachine_def getProviderSpec_provisioned
        getProviderStatus_provisioned getNvidiaBmmClient_injected uuid_String_uuid1
        uuid_Parse_uuid1 failingGetClient_def)
       (simp add: provisionedMachine_def testMachine_def createTestMachine_def)
  show ?thesis
    by (simp add: testActuator_def Create_testMachine Create_createdMachine ex
        providerID_of_createdMachine testProviderIDString_def uuid_String_uuid1
        uuid_String_uuid2)
qed

section \<open>The reconciler\<close>

text \<open>
  Claim C7 (finalizer protocol).
  \<^item> A normal pass on a resource without the finalizer appends the finalizer and sends the
    object to the store; that write is the only effect, and the result does not depend on
    the actuator or on the remote platform at all, so no actuator operation has run. When
    the store accepts the write the pass asks for a requeue; when it refuses, the pass
    returns the error.
  \<^item> A deletion pass whose Delete returns an error returns that error, leaves the object
    and its finalizers as they are and sends nothing to the store.
  \<^item> A deletion pass whose Delete returns nil removes the finalizer and sends the object
    to the store after the effects of Delete.
  So the finalizer is gone after a deletion pass only if Delete has returned nil.
\<close>

theorem reconcile_finalizer_protocol:
  "(\<not> ContainsFinalizer machineObj MachineFinalizer \<longrightarrow>
      (let machineObj' = machineObj\<lparr>finalizers := finalizers machineObj @ [MachineFinalizer]\<rparr>
       in ContainsFinalizer machineObj' MachineFinalizer \<and>
          reconcileNormal nc r machineObj =
            (case Update_object (r_Client r) machineObj' of
               None \<Rightarrow>
                 ((\<lparr>Requeue = True, RequeueAfter = 0\<rparr>, None), machineObj',
                  [UpdateCall machineObj'])
             | Some err \<Rightarrow>
                 ((emptyResult, Some (Errorf_w ''failed to add finalizer'' err)), machineObj',
                  [UpdateCall machineObj'])) \<and>
          reconcileNormal nc' (r\<lparr>r_Actuator := a'\<rparr>) machineObj =
            reconcileNormal nc r machineObj)) \<and>
   (Delete nc (r_Actuator r) machineObj = (Some err, w) \<longrightarrow>
      reconcileDelete nc r machineObj = ((emptyResult, Some err), machineObj, w)) \<and>
   (Delete nc (r_Actuator r) machineObj = (None, w) \<longrightarrow>
      (let machineObj' = RemoveFinalizer machineObj MachineFinalizer
       in \<not> ContainsFinalizer machineObj' MachineFinalizer \<and>
          reconcileDelete nc r machineObj =
            (case Update_object (r_Client r) machineObj' of
               None \<Rightarrow> ((emptyResult, None), machineObj', w @ [UpdateCall machineObj'])
             | Some err' \<Rightarrow>
                 ((emptyResult, Some (Errorf_w ''failed to remove finalizer'' err')),
                  machineObj', w @ [UpdateCall machineObj'])))) \<and>
   (ContainsFinalizer machineObj MachineFinalizer \<and>
    \<not> ContainsFinalizer (fst (snd (reconcileDelete nc r machineObj))) MachineFinalizer \<longrightarrow>
      fst (Delete nc (r_Actuator r) machineObj) = None)"
  by (auto simp: reconcileNormal_def reconcileDelete_def AddFinalizer_def ContainsFinalizer_def
      RemoveFinalizer_def Let_def split: option.splits prod.splits)

text \<open>
  The witness: the test machine without finalizer; the created machine with the
  finalizer when the platform answers 500 to the delete call, and when it answers 204.
\<close>

theorem reconcile_finalizer_protocol_witness:
  "reconcileNormal noClientFactory \<lparr>r_Client = testStore, r_Actuator = testActuator uuid1\<rparr>
     testMachine =
     ((\<lparr>Requeue = True, RequeueAfter = 0\<rparr>, None),
      testMachine\<lparr>finalizers := [''machine.openshift.io/nvidia-bmm'']\<rparr>,
      [UpdateCall (testMachine\<lparr>finalizers := [''machine.openshift.io/nvidia-bmm'']\<rparr>)]) \<and>
   reconcileDelete noClientFactory
     \<lparr>r_Client = testStore,
      r_Actuator = NewActuatorWithClient testStore False noDataClient ''test-org''\<rparr>
     (createdMachine uuid1\<lparr>finalizers := [''machine.openshift.io/nvidia-bmm'']\<rparr>) =
     ((emptyResult, Some (Errorf_d ''delete instance returned unexpected status'' 500)),
      createdMachine uuid1\<lparr>finalizers := [''machine.openshift.io/nvidia-bmm'']\<rparr>,
      [DeleteInstanceCall ''test-org'' uuid1]) \<and>
   reconcileDelete noClientFactory
     \<lparr>r_Client = testStore, r_Actuator = testActuator uuid1\<rparr>
     (createdMachine uuid1\<lparr>finalizers := [''machine.openshift.io/nvidia-bmm'']\<rparr>) =
     ((emptyResult, None), createdMachine uuid1,
      [DeleteInstanceCall ''test-org'' uuid1, UpdateCall (createdMachine uuid1)])"
proof -
  let ?f = "''machine.openshift.io/nvidia-bmm''"
  let ?m = "createdMachine uuid1\<lparr>finalizers := [?f]\<rparr>"
  let ?r1 = "\<lparr>r_Client = testStore, r_Actuator = testActuator uuid1\<rparr>"
  let ?r2 = "\<lparr>r_Client = testStore,
      r_Actuator = NewActuatorWithClient testStore False noDataClient ''test-org''\<rparr>"
  have nofin: "\<not> ContainsFinalizer testMachine MachineFinalizer"
    by (simp add: ContainsFinalizer_def testMachine_def createTestMachine_def)
  have store: "Update_object testStore obj = None" for obj
    by (simp add: testStore_def)
  have fin: "finalizers testMachine = []" "finalizers (createdMachine uuid1) = []"
    by (simp_all add: fixture_defs)
  have d2: "Delete noClientFactory (r_Actuator ?r2) ?m =
      (Some (Errorf_d ''delete instance returned unexpected status'' 500),
       [DeleteInstanceCall ''test-org'' uuid1])"
    by (simp add: Delete_def getProviderSpec_def getProviderStatus_def getNvidiaBmmClient_def
        recordEvent_def uuid_String_uuid1 uuid_Parse_uuid1 noDataClient_def
        NewActuatorWithClient_def createdMachine_def provisionedMachine_def emptyStatus_def
        testMachine_def createTestMachine_def)
  have d1: "Delete noClientFactory (r_Actuator ?r1) ?m =
      (None, [DeleteInstanceCall ''test-org'' uuid1])"
    by (simp add: Delete_def getProviderSpec_def getProviderStatus_def getNvidiaBmmClient_def
        recordEvent_def uuid_String_uuid1 uuid_Parse_uuid1 mockNvidiaBmmClient_def
        testActuator_def NewActuatorWithClient_def createdMachine_def
        provisionedMachine_def emptyStatus_def testMachine_def createTestMachine_def)
  have rm: "RemoveFinalizer ?m MachineFinalizer = createdMachine uuid1"
    by (simp add: RemoveFinalizer_def MachineFinalizer_def fixture_defs)
  have c1: "reconcileNormal noClientFactory ?r1 testMachine =
      ((\<lparr>Requeue = True, RequeueAfter = 0\<rparr>, None), testMachine\<lparr>finalizers := [?f]\<rparr>,
       [UpdateCall (testMachine\<lparr>finalizers := [?f]\<rparr>)])"
    using reconcile_finalizer_protocol
      [where machineObj = testMachine and nc = noClientFactory and r = ?r1] nofin
    by (simp add: Let_def store fin MachineFinalizer_def)
  have c2: "reconcileDelete noClientFactory ?r2 ?m =
      ((emptyResult, Some (Errorf_d ''delete instance returned unexpected status'' 500)), ?m,
       [DeleteInstanceCall ''test-org'' uuid1])"
    using reconcile_finalizer_protocol
      [where machineObj = ?m and nc = noClientFactory and r = ?r2
         and err = "Errorf_d ''delete instance returned unexpected status'' 500"
         and w = "[DeleteInstanceCall ''test-org'' uuid1]"] d2
    by blast
  have c3: "reconcileDelete noClientFactory ?r1 ?m =
      ((emptyResult, None), createdMachine uuid1,
       [DeleteInstanceCall ''test-org'' uuid1, UpdateCall (createdMachine uuid1)])"
    using reconcile_finalizer_protocol
      [where machineObj = ?m and nc = noClientFactory and r = ?r1
         and w = "[DeleteInstanceCall ''test-org'' uuid1]"] d1
    by (simp add: Let_def rm store)
  from c1 c2 c3 show ?thesis by simp
qed

end
